theory Spec2Isabelle
  imports Main "HOL-Library.Sublist" "HOL-Library.AList"
begin

section \<open>Strings\<close>

text \<open>
  A Go string is a sequence of bytes; it is modelled as a \<open>string\<close> (a list of
  \<open>char\<close>, one per byte). The two library functions the programs apply to strings treat
  only ASCII bytes specially (the digits and the space), and no byte of a multi-byte UTF-8
  sequence is an ASCII byte, so working byte by byte gives what Go computes rune by rune.
\<close>

text \<open>
  \<open>strings.Map(mapping, s)\<close>: every character is replaced by its image; a character whose
  image is negative is dropped (here: \<open>None\<close>).
\<close>

definition strings_Map :: "(char \<Rightarrow> char option) \<Rightarrow> string \<Rightarrow> string" where
  "strings_Map mapping s = List.map_filter mapping s"

text \<open>
  \<open>strings.ReplaceAll(s, old, new)\<close> for a non-empty \<open>old\<close>: the non-overlapping
  occurrences of \<open>old\<close> are replaced from left to right. The programs never pass an empty
  \<open>old\<close>, and no equation is given for it.
\<close>

fun strings_ReplaceAll :: "string \<Rightarrow> string \<Rightarrow> string \<Rightarrow> string" where
  "strings_ReplaceAll [] (p # ps) new = []"
| "strings_ReplaceAll (c # cs) (p # ps) new =
     (if prefix (p # ps) (c # cs)
      then new @ strings_ReplaceAll (drop (length ps) cs) (p # ps) new
      else c # strings_ReplaceAll cs (p # ps) new)"

text \<open>The slice expression \<open>s[i:j]\<close> of Go, used by the programs only within range.\<close>

definition slice :: "string \<Rightarrow> nat \<Rightarrow> nat \<Rightarrow> string" where
  "slice s i j = take (j - i) (drop i s)"

section \<open>Errors and log lines\<close>

text \<open>
  A Go \<open>error\<close> value. \<open>csv_ParseError\<close> is the lexical error of \<open>encoding/csv\<close> and
  \<open>csv_ErrFieldCount\<close> its \<open>ErrFieldCount\<close>; \<open>LibError\<close> is an error that a call into a
  library or the operating system returned, \<open>Errorf m\<close> is \<open>fmt.Errorf(m)\<close> and
  \<open>Errorf_w m e\<close> is \<open>fmt.Errorf(m + ": %w", e)\<close>, the wrapping every error return of the
  programs uses.
\<close>

datatype error =
    io_EOF
  | csv_ParseError
  | csv_ErrFieldCount
  | LibError string
  | Errorf string
  | Errorf_w string error

text \<open>
  A line written through the \<open>log\<close> package: the format string of the call, as in the
  source, and its arguments.
\<close>

datatype logarg = ArgString string | ArgRecord "string list" | ArgInt nat | ArgError error

type_synonym logline = "string \<times> logarg list"

section \<open>Images, fonts and drawing\<close>

text \<open>
  Rasterisation is the library's work and is not modelled. An \<open>*image.RGBA\<close> is kept as its
  rectangle and the sequence of drawing operations applied to it since \<open>image.NewRGBA\<close>;
  the pixels are a function of the two. A decoded image is its bounds and its pixel data.
\<close>

record Point =
  X :: int
  Y :: int

record Rectangle =
  Rect_Min :: Point
  Rect_Max :: Point

record Image =
  Bounds :: Rectangle
  Pixels :: string

datatype Font = Font string

datatype Hinting = HintingNone | HintingVertical | HintingFull

text \<open>
  \<open>opentype.FaceOptions\<close>. The sizes are \<open>float64\<close> constants in the source, all of them
  whole numbers (\<open>20.0\<close>, \<open>13.0\<close>, ...), and they are used again as \<open>int(size)\<close> to advance
  the baseline; the model keeps them as integers, on which \<open>int(_)\<close> is the identity.
\<close>

record FaceOptions =
  Size :: int
  DPI :: int
  Hinting :: Hinting

datatype Face = Face Font FaceOptions

datatype color = color_RGBA nat nat nat nat

datatype draw_op =
    Draw_Src Rectangle Image Point
  | DrawString Face string int int color

record RGBA =
  Rect :: Rectangle
  Ops :: "draw_op list"

definition image_NewRGBA :: "Rectangle \<Rightarrow> RGBA" where
  "image_NewRGBA r = \<lparr>Rect = r, Ops = []\<rparr>"

text \<open>\<open>draw.Draw(dst, r, src, sp, draw.Src)\<close>.\<close>

definition draw_Draw :: "RGBA \<Rightarrow> Rectangle \<Rightarrow> Image \<Rightarrow> Point \<Rightarrow> RGBA" where
  "draw_Draw dst r src sp = dst\<lparr>Ops := Ops dst @ [Draw_Src r src sp]\<rparr>"

text \<open>
  \<open>drawText\<close> (the same function in the three programs): a \<open>font.Drawer\<close> on \<open>img\<close> with the
  uniform colour \<open>c\<close>, the face and the dot \<open>(x, y)\<close>, and one \<open>DrawString\<close>.
\<close>

definition drawText :: "RGBA \<Rightarrow> Face \<Rightarrow> string \<Rightarrow> int \<Rightarrow> int \<Rightarrow> color \<Rightarrow> RGBA" where
  "drawText img face txt x y c = img\<lparr>Ops := Ops img @ [DrawString face txt x y c]\<rparr>"

section \<open>The environment of a run\<close>

text \<open>
  What a program reads from outside itself. Two path strings can name one file
  (\<open>x.png\<close> and \<open>./x.png\<close>, a link and its target, two spellings on a file system that
  ignores case): \<open>resolve\<close> gives the file a path names, as the operating system resolves
  it, and every operation on a path goes through it. \<open>fs\<close> is the file system, an
  association list from resolved paths to entries (a path with no entry does not exist;
  \<open>Unreadable\<close> is a file that exists and cannot be opened). The decoders and the CSV lexer are library functions the
  programs call; what they return for given bytes is a parameter. \<open>creatable\<close> tells whether
  \<open>os.Create\<close> succeeds on a path, and \<open>png_Encode\<close> what \<open>png.Encode\<close> does with an image.
\<close>

datatype fsentry = Unreadable | File string

text \<open>
  One record of a CSV file as the lexer of \<open>encoding/csv\<close> delivers it, before the reader
  checks the number of fields: its fields, or the fields read before a lexical error
  (a misplaced quote). Empty lines are no records.
\<close>

datatype csv_row = Row "string list" | Malformed "string list"

text \<open>
  What \<open>png.Encode(w, img)\<close> did: it wrote the whole encoding to \<open>w\<close> and returned
  \<open>nil\<close>, or it returned an error, before its first \<open>Write\<close> on \<open>w\<close> (\<open>None\<close>) or after
  writes that delivered the given bytes.
\<close>

datatype encode_outcome = Encoded string | EncodeFailed "string option" error

record Env =
  resolve :: "string \<Rightarrow> string"
  fs :: "(string \<times> fsentry) list"
  creatable :: "string \<Rightarrow> bool"
  image_Decode :: "string \<Rightarrow> error + Image"
  opentype_Parse :: "string \<Rightarrow> error + Font"
  opentype_NewFace :: "Font \<Rightarrow> FaceOptions \<Rightarrow> error + Face"
  csv_records :: "string \<Rightarrow> csv_row list"
  png_Encode :: "RGBA \<Rightarrow> encode_outcome"

text \<open>\<open>os.Open\<close> followed by reading the file, and \<open>ioutil.ReadFile\<close>.\<close>

definition os_Open :: "Env \<Rightarrow> string \<Rightarrow> error + string" where
  "os_Open env path =
     (case map_of (fs env) (resolve env path) of
        Some (File content) \<Rightarrow> Inr content
      | _ \<Rightarrow> Inl (LibError (''open '' @ path)))"

definition ioutil_ReadFile :: "Env \<Rightarrow> string \<Rightarrow> error + string" where
  "ioutil_ReadFile env path = os_Open env path"

text \<open>\<open>_, err := os.Stat(path); os.IsNotExist(err)\<close>.\<close>

definition os_IsNotExist :: "Env \<Rightarrow> string \<Rightarrow> bool" where
  "os_IsNotExist env path \<longleftrightarrow> map_of (fs env) (resolve env path) = None"

section \<open>The card record of the batch program and of the e-mail footer server\<close>

text \<open>
  \<open>src/main.go\<close> and the second program of \<open>src/server/emailfooterserver.go\<close> declare the
  same struct of seven strings.
\<close>

record BusinessCard =
  Name :: string
  Pronouns :: string
  Title :: string
  Company :: string
  Address :: string
  PhoneNumber :: string
  Email :: string

section \<open>Output file names of the batch program\<close>

text \<open>
  The two assignments in the loop of \<open>main\<close> (\<open>src/main.go\<close>, lines 265 and 266):
  \<open>sanitizedName := strings.ReplaceAll(card.Name, " ", "_")\<close> and
  \<open>outputFileName := fmt.Sprintf("%s_email_signature.png", sanitizedName)\<close>.
\<close>

definition sanitizedName :: "BusinessCard \<Rightarrow> string" where
  "sanitizedName cardData = strings_ReplaceAll (Name cardData) '' '' ''_''"

definition outputFileName :: "BusinessCard \<Rightarrow> string" where
  "outputFileName cardData = sanitizedName cardData @ ''_email_signature.png''"

section \<open>Reading the cards of the batch program\<close>

text \<open>
  The reader of \<open>encoding/csv\<close>. \<open>csv.NewReader\<close> leaves \<open>FieldsPerRecord\<close> at 0, and
  \<open>readCardsFromCSV\<close> never assigns it. \<open>Read\<close> returns the next record and an error:
  \<open>io.EOF\<close> at the end of the input, the lexical error of a malformed record, and, as
  the package documents for \<open>FieldsPerRecord\<close>, \<open>ErrFieldCount\<close> for a record whose number
  of fields is not the positive \<open>FieldsPerRecord\<close>; when \<open>FieldsPerRecord\<close> is 0, \<open>Read\<close>
  sets it to the number of fields of the record it returns, so the first record fixes
  the number of fields of all that follow. A negative value switches the check off.
\<close>

record csv_Reader =
  FieldsPerRecord :: int
  input :: "csv_row list"

definition csv_NewReader :: "csv_row list \<Rightarrow> csv_Reader" where
  "csv_NewReader rows = \<lparr>FieldsPerRecord = 0, input = rows\<rparr>"

definition csv_Read :: "csv_Reader \<Rightarrow> (string list \<times> error option) \<times> csv_Reader" where
  "csv_Read r =
     (case input r of
        [] \<Rightarrow> (([], Some io_EOF), r)
      | row # rest \<Rightarrow>
          let dst = (case row of Row flds \<Rightarrow> flds | Malformed flds \<Rightarrow> flds);
              err = (case row of Row flds \<Rightarrow> None | Malformed flds \<Rightarrow> Some csv_ParseError);
              r = r\<lparr>input := rest\<rparr>
          in if FieldsPerRecord r > 0
             then (if int (length dst) \<noteq> FieldsPerRecord r \<and> err = None
                   then ((dst, Some csv_ErrFieldCount), r)
                   else ((dst, err), r))
             else if FieldsPerRecord r = 0
             then ((dst, err), r\<lparr>FieldsPerRecord := int (length dst)\<rparr>)
             else ((dst, err), r))"

text \<open>
  The \<open>for\<close> loop of \<open>readCardsFromCSV\<close> (\<open>src/main.go\<close>, lines 190 to 214), with the
  reader, the cards appended so far and the lines logged so far as its state.
\<close>

function readCardsLoop ::
  "csv_Reader \<Rightarrow> BusinessCard list \<Rightarrow> logline list \<Rightarrow> logline list \<times> (error + BusinessCard list)" where
  "readCardsLoop reader cards logs =
     (let res = csv_Read reader;
          record = fst (fst res);
          err = snd (fst res);
          reader' = snd res
      in if err = Some io_EOF then (logs, Inr cards)
         else if err \<noteq> None then (logs, Inl (Errorf_w ''failed to read CSV record'' (the err)))
         else if length record < 7
         then readCardsLoop reader' cards
                (logs @ [(''Skipping invalid record: %v (expected 7 fields, got %d)'',
                          [ArgRecord record, ArgInt (length record)])])
         else readCardsLoop reader'
                (cards @ [\<lparr>Name = record ! 0, Pronouns = record ! 1, Title = record ! 2,
                           Company = record ! 3, Address = record ! 4,
                           PhoneNumber = record ! 5, Email = record ! 6\<rparr>])
                logs)"
  by pat_completeness auto
termination
  by (relation "measure (\<lambda>(reader, cards, logs). length (input reader))")
     (auto simp: csv_Read_def Let_def split: list.splits if_splits)

declare readCardsLoop.simps [simp del]

definition readCardsFromCSV :: "Env \<Rightarrow> string \<Rightarrow> logline list \<times> (error + BusinessCard list)" where
  "readCardsFromCSV env csvPath =
     (case os_Open env csvPath of
        Inl err \<Rightarrow> ([], Inl (Errorf_w ''failed to open CSV file'' err))
      | Inr file \<Rightarrow>
          let reader = csv_NewReader (csv_records env file);
              res = csv_Read reader;
              err = snd (fst res);
              reader = snd res
          in if err \<noteq> None
             then (if err = Some io_EOF
                   then ([], Inl (Errorf ''CSV file is empty''))
                   else ([], Inl (Errorf_w ''failed to read CSV header'' (the err))))
             else readCardsLoop reader [] [])"

section \<open>Rendering a card: the batch program\<close>

text \<open>
  \<open>GenerateCard\<close> of \<open>src/main.go\<close>. Every \<open>return nil, fmt.Errorf(...)\<close> is an \<open>Inl\<close>;
  \<open>Inr img\<close> is the return of the image with a \<open>nil\<close> error. \<open>fmt.Sprintf("%s", v)\<close> is
  \<open>v\<close>. An \<open>if\<close> statement that draws and advances \<open>y\<close> is a conditional on the pair
  of \<open>img\<close> and \<open>y\<close>.
\<close>

definition GenerateCard ::
  "Env \<Rightarrow> string \<Rightarrow> string \<Rightarrow> string \<Rightarrow> BusinessCard \<Rightarrow> error + RGBA" where
  "GenerateCard env bgImagePath regularFontPath boldFontPath cardData =
     (case os_Open env bgImagePath of
        Inl err \<Rightarrow> Inl (Errorf_w ''failed to open background image'' err)
      | Inr bgFile \<Rightarrow>
     (case image_Decode env bgFile of
        Inl err \<Rightarrow> Inl (Errorf_w ''failed to decode background image'' err)
      | Inr bgImage \<Rightarrow>
     let bounds = Bounds bgImage;
         img = image_NewRGBA bounds;
         img = draw_Draw img bounds bgImage \<lparr>X = 0, Y = 0\<rparr>
     in
     (case ioutil_ReadFile env regularFontPath of
        Inl err \<Rightarrow> Inl (Errorf_w ''failed to read regular font file'' err)
      | Inr regularFontBytes \<Rightarrow>
     (case opentype_Parse env regularFontBytes of
        Inl err \<Rightarrow> Inl (Errorf_w ''failed to parse regular font'' err)
      | Inr regularFont \<Rightarrow>
     (case ioutil_ReadFile env boldFontPath of
        Inl err \<Rightarrow> Inl (Errorf_w ''failed to read bold font file'' err)
      | Inr boldFontBytes \<Rightarrow>
     (case opentype_Parse env boldFontBytes of
        Inl err \<Rightarrow> Inl (Errorf_w ''failed to parse bold font'' err)
      | Inr boldFont \<Rightarrow>
     let nameFontSize = 20;
         pronounsFontSize = 13;
         titleFontSize = 15;
         companyFontSize = 15;
         otherFontSize = 13;
         midFontSize = 14
     in
     (case opentype_NewFace env boldFont \<lparr>Size = nameFontSize, DPI = 72, Hinting = HintingFull\<rparr> of
        Inl err \<Rightarrow> Inl (Errorf_w ''failed to create name font face'' err)
      | Inr nameFace \<Rightarrow>
     (case opentype_NewFace env boldFont \<lparr>Size = midFontSize, DPI = 72, Hinting = HintingFull\<rparr> of
        Inl err \<Rightarrow> Inl (Errorf_w ''failed to create mid font face'' err)
      | Inr midFace \<Rightarrow>
     (case opentype_NewFace env boldFont \<lparr>Size = titleFontSize, DPI = 72, Hinting = HintingFull\<rparr> of
        Inl err \<Rightarrow> Inl (Errorf_w ''failed to create mid font face'' err)
      | Inr titleFace \<Rightarrow>
     (case opentype_NewFace env regularFont \<lparr>Size = otherFontSize, DPI = 72, Hinting = HintingFull\<rparr> of
        Inl err \<Rightarrow> Inl (Errorf_w ''failed to create other font face'' err)
      | Inr otherFace \<Rightarrow>
     (case opentype_NewFace env regularFont \<lparr>Size = pronounsFontSize, DPI = 72, Hinting = HintingFull\<rparr> of
        Inl err \<Rightarrow> Inl (Errorf_w ''failed to create pronouns font face'' err)
      | Inr pronounsFace \<Rightarrow>
     let nameColor = color_RGBA 242 103 34 255;
         titleTextColor = color_RGBA 0 48 71 255;
         companyTextColor = color_RGBA 109 110 113 255;
         otherTextColor = color_RGBA 109 110 113 255;
         y = 25;
         img = drawText img nameFace (Name cardData) 70 y nameColor;
         y = y + nameFontSize + 0;
         (img, y) =
           (if Pronouns cardData \<noteq> ''''
            then (drawText img pronounsFace (Pronouns cardData) 70 y otherTextColor,
                  y + pronounsFontSize + 1)
            else (img, y));
         img = drawText img titleFace (Title cardData) 70 y titleTextColor;
         y = y + titleFontSize + 0;
         y = y + 10;
         img = drawText img midFace (Company cardData) 70 y companyTextColor;
         y = y + companyFontSize + 0;
         img = drawText img otherFace (Address cardData) 70 y otherTextColor;
         y = y + otherFontSize + 0;
         img = drawText img otherFace (PhoneNumber cardData) 70 y otherTextColor;
         y = y + otherFontSize + 0;
         img = drawText img otherFace (Email cardData) 70 y otherTextColor
     in Inr img)))))))))))"

section \<open>Formatting the phone number: the two servers\<close>

text \<open>
  The same statements stand in both programs of \<open>src/server/emailfooterserver.go\<close> (lines
  162 to 173 and 440 to 451): the characters of the phone number that are not in
  \<open>'0'..'9'\<close> are dropped by \<open>strings.Map\<close>, and when ten remain they are laid out by
  \<open>fmt.Sprintf("(%s) %s-%s", digitsOnly[0:3], digitsOnly[3:6], digitsOnly[6:10])\<close>.
\<close>

definition digitsOnly :: "string \<Rightarrow> string" where
  "digitsOnly phoneNumber =
     strings_Map
       (\<lambda>r. if (48::nat) \<le> of_char r \<and> of_char r \<le> (57::nat) then Some r else None)
       phoneNumber"

definition formattedPhone :: "string \<Rightarrow> string" where
  "formattedPhone phoneNumber =
     (if length (digitsOnly phoneNumber) = 10
      then ''('' @ slice (digitsOnly phoneNumber) 0 3 @ '') '' @ slice (digitsOnly phoneNumber) 3 6
             @ ''-'' @ slice (digitsOnly phoneNumber) 6 10
      else phoneNumber)"

section \<open>Rendering a card: the e-mail footer server\<close>

text \<open>
  \<open>GenerateCard\<close> of the second program of \<open>src/server/emailfooterserver.go\<close> (lines 319 to
  458): the function of the batch program, with the phone number formatted.
\<close>

definition GenerateCard_footer ::
  "Env \<Rightarrow> string \<Rightarrow> string \<Rightarrow> string \<Rightarrow> BusinessCard \<Rightarrow> error + RGBA" where
  "GenerateCard_footer env bgImagePath regularFontPath boldFontPath cardData =
     (case os_Open env bgImagePath of
        Inl err \<Rightarrow> Inl (Errorf_w ''failed to open background image'' err)
      | Inr bgFile \<Rightarrow>
     (case image_Decode env bgFile of
        Inl err \<Rightarrow> Inl (Errorf_w ''failed to decode background image'' err)
      | Inr bgImage \<Rightarrow>
     let bounds = Bounds bgImage;
         img = image_NewRGBA bounds;
         img = draw_Draw img bounds bgImage \<lparr>X = 0, Y = 0\<rparr>
     in
     (case ioutil_ReadFile env regularFontPath of
        Inl err \<Rightarrow> Inl (Errorf_w ''failed to read regular font file'' err)
      | Inr regularFontBytes \<Rightarrow>
     (case opentype_Parse env regularFontBytes of
        Inl err \<Rightarrow> Inl (Errorf_w ''failed to parse regular font'' err)
      | Inr regularFont \<Rightarrow>
     (case ioutil_ReadFile env boldFontPath of
        Inl err \<Rightarrow> Inl (Errorf_w ''failed to read bold font file'' err)
      | Inr boldFontBytes \<Rightarrow>
     (case opentype_Parse env boldFontBytes of
        Inl err \<Rightarrow> Inl (Errorf_w ''failed to parse bold font'' err)
      | Inr boldFont \<Rightarrow>
     let nameFontSize = 20;
         pronounsFontSize = 13;
         titleFontSize = 15;
         companyFontSize = 15;
         otherFontSize = 13;
         midFontSize = 14
     in
     (case opentype_NewFace env boldFont \<lparr>Size = nameFontSize, DPI = 72, Hinting = HintingFull\<rparr> of
        Inl err \<Rightarrow> Inl (Errorf_w ''failed to create name font face'' err)
      | Inr nameFace \<Rightarrow>
     (case opentype_NewFace env boldFont \<lparr>Size = midFontSize, DPI = 72, Hinting = HintingFull\<rparr> of
        Inl err \<Rightarrow> Inl (Errorf_w ''failed to create mid font face'' err)
      | Inr midFace \<Rightarrow>
     (case opentype_NewFace env boldFont \<lparr>Size = titleFontSize, DPI = 72, Hinting = HintingFull\<rparr> of
        Inl err \<Rightarrow> Inl (Errorf_w ''failed to create mid font face'' err)
      | Inr titleFace \<Rightarrow>
     (case opentype_NewFace env regularFont \<lparr>Size = otherFontSize, DPI = 72, Hinting = HintingFull\<rparr> of
        Inl err \<Rightarrow> Inl (Errorf_w ''failed to create other font face'' err)
      | Inr otherFace \<Rightarrow>
     (case opentype_NewFace env regularFont \<lparr>Size = pronounsFontSize, DPI = 72, Hinting = HintingFull\<rparr> of
        Inl err \<Rightarrow> Inl (Errorf_w ''failed to create pronouns font face'' err)
      | Inr pronounsFace \<Rightarrow>
     let nameColor = color_RGBA 242 103 34 255;
         titleTextColor = color_RGBA 0 48 71 255;
         companyTextColor = color_RGBA 109 110 113 255;
         otherTextColor = color_RGBA 109 110 113 255;
         y = 25;
         img = drawText img nameFace (Name cardData) 70 y nameColor;
         y = y + nameFontSize + 0;
         (img, y) =
           (if Pronouns cardData \<noteq> ''''
            then (drawText img pronounsFace (Pronouns cardData) 70 y otherTextColor,
                  y + pronounsFontSize + 1)
            else (img, y));
         img = drawText img titleFace (Title cardData) 70 y titleTextColor;
         y = y + titleFontSize + 0;
         y = y + 10;
         img = drawText img midFace (Company cardData) 70 y companyTextColor;
         y = y + companyFontSize + 0;
         img = drawText img otherFace (Address cardData) 70 y otherTextColor;
         y = y + otherFontSize + 0;
         formattedPhone = formattedPhone (PhoneNumber cardData);
         img = drawText img otherFace formattedPhone 70 y otherTextColor;
         y = y + otherFontSize + 0;
         img = drawText img otherFace (Email cardData) 70 y otherTextColor
     in Inr img)))))))))))"

section \<open>Rendering a card: the business card server\<close>

text \<open>
  The first program of \<open>src/server/emailfooterserver.go\<close> (lines 1 to 285) has a card
  record of twelve strings and a third, italic font. Its fields carry the suffix \<open>_s\<close>.
\<close>

record BusinessCard_s =
  Name_s :: string
  Pronouns_s :: string
  Title_s :: string
  Company_s :: string
  Department_s :: string
  Address_s :: string
  LandGrant1_s :: string
  LandGrant2_s :: string
  LandGrant3_s :: string
  LandGrant4_s :: string
  PhoneNumber_s :: string
  Email_s :: string

definition GenerateCard_s ::
  "Env \<Rightarrow> string \<Rightarrow> string \<Rightarrow> string \<Rightarrow> string \<Rightarrow> BusinessCard_s \<Rightarrow> error + RGBA" where
  "GenerateCard_s env bgImagePath regularFontPath boldFontPath italicFontPath cardData =
     (case os_Open env bgImagePath of
        Inl err \<Rightarrow> Inl (Errorf_w ''failed to open background image'' err)
      | Inr bgFile \<Rightarrow>
     (case image_Decode env bgFile of
        Inl err \<Rightarrow> Inl (Errorf_w ''failed to decode background image'' err)
      | Inr bgImage \<Rightarrow>
     let bounds = Bounds bgImage;
         img = image_NewRGBA bounds;
         img = draw_Draw img bounds bgImage \<lparr>X = 0, Y = 0\<rparr>
     in
     (case ioutil_ReadFile env regularFontPath of
        Inl err \<Rightarrow> Inl (Errorf_w ''failed to read regular font file'' err)
      | Inr regularFontBytes \<Rightarrow>
     (case opentype_Parse env regularFontBytes of
        Inl err \<Rightarrow> Inl (Errorf_w ''failed to parse regular font'' err)
      | Inr regularFont \<Rightarrow>
     (case ioutil_ReadFile env boldFontPath of
        Inl err \<Rightarrow> Inl (Errorf_w ''failed to read bold font file'' err)
      | Inr boldFontBytes \<Rightarrow>
     (case opentype_Parse env boldFontBytes of
        Inl err \<Rightarrow> Inl (Errorf_w ''failed to parse bold font'' err)
      | Inr boldFont \<Rightarrow>
     (case ioutil_ReadFile env italicFontPath of
        Inl err \<Rightarrow> Inl (Errorf_w ''failed to read italic font file'' err)
      | Inr italicFontBytes \<Rightarrow>
     (case opentype_Parse env italicFontBytes of
        Inl err \<Rightarrow> Inl (Errorf_w ''failed to parse italic font'' err)
      | Inr italicFont \<Rightarrow>
     let nameFontSize = 36;
         midFontSize = 28;
         otherFontSize = 24;
         pronounsFontSize = 18
     in
     (case opentype_NewFace env boldFont \<lparr>Size = nameFontSize, DPI = 72, Hinting = HintingFull\<rparr> of
        Inl err \<Rightarrow> Inl (Errorf_w ''failed to create name font face'' err)
      | Inr nameFace \<Rightarrow>
     (case opentype_NewFace env boldFont \<lparr>Size = midFontSize, DPI = 72, Hinting = HintingFull\<rparr> of
        Inl err \<Rightarrow> Inl (Errorf_w ''failed to create mid font face'' err)
      | Inr midFace \<Rightarrow>
     (case opentype_NewFace env regularFont \<lparr>Size = otherFontSize, DPI = 72, Hinting = HintingFull\<rparr> of
        Inl err \<Rightarrow> Inl (Errorf_w ''failed to create other font face'' err)
      | Inr otherFace \<Rightarrow>
     (case opentype_NewFace env italicFont \<lparr>Size = pronounsFontSize, DPI = 72, Hinting = HintingFull\<rparr> of
        Inl err \<Rightarrow> Inl (Errorf_w ''failed to create pronouns font face'' err)
      | Inr pronounsFace \<Rightarrow>
     let nameColor = color_RGBA 255 165 0 255;
         midTextColor = color_RGBA 200 200 200 255;
         otherTextColor = color_RGBA 255 255 255 255;
         y = 100;
         img = drawText img nameFace (Name_s cardData) 50 y nameColor;
         y = y + nameFontSize + 5;
         (img, y) =
           (if Pronouns_s cardData \<noteq> ''''
            then (drawText img pronounsFace (Pronouns_s cardData) 50 y otherTextColor,
                  y + pronounsFontSize + 5)
            else (img, y));
         y = y + 10;
         img = drawText img midFace (''Title: '' @ Title_s cardData) 50 y midTextColor;
         y = y + midFontSize + 10;
         img = drawText img midFace (''Company: '' @ Company_s cardData) 50 y midTextColor;
         y = y + midFontSize + 10;
         (img, y) =
           (if Department_s cardData \<noteq> ''''
            then (drawText img midFace (''Department: '' @ Department_s cardData) 50 y midTextColor,
                  y + midFontSize + 10)
            else (img, y));
         img = drawText img otherFace (''Address: '' @ Address_s cardData) 50 y otherTextColor;
         y = y + otherFontSize + 10;
         formattedPhone = formattedPhone (PhoneNumber_s cardData);
         img = drawText img otherFace (''Phone: '' @ formattedPhone) 50 y otherTextColor;
         y = y + otherFontSize + 10;
         img = drawText img otherFace (''Email: '' @ Email_s cardData) 50 y otherTextColor;
         y = y + otherFontSize + 10;
         (img, y) =
           (if LandGrant1_s cardData \<noteq> ''''
            then (drawText img otherFace (LandGrant1_s cardData) 50 y otherTextColor,
                  y + otherFontSize + 5)
            else (img, y));
         (img, y) =
           (if LandGrant2_s cardData \<noteq> ''''
            then (drawText img otherFace (LandGrant2_s cardData) 50 y otherTextColor,
                  y + otherFontSize + 5)
            else (img, y));
         (img, y) =
           (if LandGrant3_s cardData \<noteq> ''''
            then (drawText img otherFace (LandGrant3_s cardData) 50 y otherTextColor,
                  y + otherFontSize + 5)
            else (img, y));
         (img, y) =
           (if LandGrant4_s cardData \<noteq> ''''
            then (drawText img otherFace (LandGrant4_s cardData) 50 y otherTextColor,
                  y + otherFontSize + 5)
            else (img, y))
     in Inr img))))))))))))"

section \<open>The batch program\<close>

text \<open>
  What a run of \<open>main\<close> leaves behind: the file system, the lines printed on the standard
  output, the lines logged, and whether the run ended in \<open>log.Fatalf\<close> (which logs the
  line and exits with status 1) or returned.
\<close>

record Result =
  files :: "(string \<times> fsentry) list"
  stdout :: "string list"
  logged :: "logline list"
  fatal :: bool

text \<open>
  The body of the \<open>for _, card := range cards\<close> loop of \<open>main\<close> (\<open>src/main.go\<close>, lines
  257 to 281), by recursion on the cards left. \<open>os.Create\<close> truncates or creates the file
  that the path names; \<open>png.Encode\<close> then writes into it.
\<close>

fun mainLoop ::
  "Env \<Rightarrow> string \<Rightarrow> string \<Rightarrow> string \<Rightarrow> BusinessCard list \<Rightarrow> string list \<Rightarrow> logline list \<Rightarrow> Result" where
  "mainLoop env bgImagePath regularFontPath boldFontPath [] out logs =
     \<lparr>files = fs env, stdout = out, logged = logs, fatal = False\<rparr>"
| "mainLoop env bgImagePath regularFontPath boldFontPath (cardData # cards) out logs =
     (case GenerateCard env bgImagePath regularFontPath boldFontPath cardData of
        Inl err \<Rightarrow>
          \<lparr>files = fs env, stdout = out,
           logged = logs @ [(''Error generating email signature for %s: %v'',
                             [ArgString (Name cardData), ArgError err])],
           fatal = True\<rparr>
      | Inr cardImage \<Rightarrow>
          if \<not> creatable env (outputFileName cardData)
          then \<lparr>files = fs env, stdout = out,
                logged = logs @ [(''Failed to create output file %s: %v'',
                                  [ArgString (outputFileName cardData),
                                   ArgError (LibError (''create '' @ outputFileName cardData))])],
                fatal = True\<rparr>
          else
            let env = env\<lparr>fs := AList.update (resolve env (outputFileName cardData)) (File [])
                                  (fs env)\<rparr>
            in (case png_Encode env cardImage of
                  EncodeFailed written err \<Rightarrow>
                    \<lparr>files = AList.update (resolve env (outputFileName cardData))
                               (File (case written of None \<Rightarrow> [] | Some bytes \<Rightarrow> bytes)) (fs env),
                     stdout = out,
                     logged = logs @ [(''Failed to encode image to PNG for %s: %v'',
                                       [ArgString (Name cardData), ArgError err])],
                     fatal = True\<rparr>
                | Encoded bytes \<Rightarrow>
                    mainLoop
                      (env\<lparr>fs := AList.update (resolve env (outputFileName cardData))
                                     (File bytes) (fs env)\<rparr>)
                      bgImagePath regularFontPath boldFontPath cards
                      (out @ [''Successfully generated business card: '' @ outputFileName cardData @ [CHR 0x0A]])
                      logs))"

text \<open>\<open>main\<close> of \<open>src/main.go\<close>.\<close>

definition main :: "Env \<Rightarrow> Result" where
  "main env =
     (let bgImagePath = ''./BrandingGuidelines_2025.png'';
          regularFontPath = ''./Raleway-Regular.ttf'';
          boldFontPath = ''./Raleway-Bold.ttf'';
          csvPath = ''./cards.csv''
      in if os_IsNotExist env bgImagePath
         then \<lparr>files = fs env, stdout = [],
               logged = [(''Background image file does not exist: %s'', [ArgString bgImagePath])],
               fatal = True\<rparr>
         else if os_IsNotExist env regularFontPath
         then \<lparr>files = fs env, stdout = [],
               logged = [(''Regular font file does not exist: %s'', [ArgString regularFontPath])],
               fatal = True\<rparr>
         else if os_IsNotExist env boldFontPath
         then \<lparr>files = fs env, stdout = [],
               logged = [(''Bold font file does not exist: %s'', [ArgString boldFontPath])],
               fatal = True\<rparr>
         else if os_IsNotExist env csvPath
         then \<lparr>files = fs env, stdout = [],
               logged = [(''CSV file does not exist: %s'', [ArgString csvPath])],
               fatal = True\<rparr>
         else
           (case readCardsFromCSV env csvPath of
              (logs, Inl err) \<Rightarrow>
                \<lparr>files = fs env, stdout = [],
                 logged = logs @ [(''Error reading cards from CSV: %v'', [ArgError err])],
                 fatal = True\<rparr>
            | (logs, Inr cards) \<Rightarrow>
                if length cards = 0
                then \<lparr>files = fs env, stdout = [],
                      logged = logs @ [(''No cards found in the CSV file.'', [])],
                      fatal = False\<rparr>
                else mainLoop env bgImagePath regularFontPath boldFontPath cards [] logs))"

section \<open>The HTTP handlers\<close>

text \<open>
  An \<open>http.ResponseWriter\<close>, as \<open>net/http\<close> documents it: \<open>Header\<close> is the header map the
  handler edits; \<open>WriteHeader\<close> sends the status code with the header map as it is then,
  once (a later call is ignored, and later changes of the map have no effect); \<open>Write\<close>
  first calls \<open>WriteHeader(200)\<close> when no status has been sent. \<open>Status\<close> and \<open>Sent\<close> are the
  status code and the headers sent, \<open>Body\<close> the bytes written.
\<close>

record ResponseWriter =
  Header :: "(string \<times> string) list"
  Status :: "nat option"
  Sent :: "(string \<times> string) list"
  Body :: string

definition Header_Set :: "ResponseWriter \<Rightarrow> string \<Rightarrow> string \<Rightarrow> ResponseWriter" where
  "Header_Set w k v = w\<lparr>Header := AList.update k v (Header w)\<rparr>"

definition Header_Del :: "ResponseWriter \<Rightarrow> string \<Rightarrow> ResponseWriter" where
  "Header_Del w k = w\<lparr>Header := AList.delete k (Header w)\<rparr>"

definition WriteHeader :: "ResponseWriter \<Rightarrow> nat \<Rightarrow> ResponseWriter" where
  "WriteHeader w code = (if Status w \<noteq> None then w else w\<lparr>Status := Some code, Sent := Header w\<rparr>)"

definition Write :: "ResponseWriter \<Rightarrow> string \<Rightarrow> ResponseWriter" where
  "Write w bytes =
     (let w = (if Status w = None then WriteHeader w 200 else w)
      in w\<lparr>Body := Body w @ bytes\<rparr>)"

text \<open>
  \<open>http.Error(w, error, code)\<close>: it removes \<open>Content-Length\<close>, sets \<open>Content-Type\<close> and
  \<open>X-Content-Type-Options\<close> in the header map, calls \<open>WriteHeader(code)\<close> and prints the
  message and a newline to \<open>w\<close>.
\<close>

definition http_Error :: "ResponseWriter \<Rightarrow> string \<Rightarrow> nat \<Rightarrow> ResponseWriter" where
  "http_Error w msg code =
     (let w = Header_Del w ''Content-Length'';
          w = Header_Set w ''Content-Type'' ''text/plain; charset=utf-8'';
          w = Header_Set w ''X-Content-Type-Options'' ''nosniff'';
          w = WriteHeader w code
      in Write w (msg @ [CHR 0x0A]))"

text \<open>\<open>png.Encode(w, img)\<close> on a response writer.\<close>

definition png_Encode_w :: "Env \<Rightarrow> ResponseWriter \<Rightarrow> RGBA \<Rightarrow> ResponseWriter \<times> error option" where
  "png_Encode_w env w img =
     (case png_Encode env img of
        Encoded bytes \<Rightarrow> (Write w bytes, None)
      | EncodeFailed None err \<Rightarrow> (w, Some err)
      | EncodeFailed (Some bytes) err \<Rightarrow> (Write w bytes, Some err))"

text \<open>
  The part of an \<open>*http.Request\<close> the handlers read: the method, and what parsing the
  query and the body as a form gives (an error, or the values of every key).
  \<open>ParseForm\<close> fills \<open>Form\<close>; \<open>FormValue\<close> is the first value of a key, or the empty string.
\<close>

record Request =
  Method :: string
  payload :: "error + (string \<times> string list) list"
  Form :: "(string \<times> string list) list"

definition ParseForm :: "Request \<Rightarrow> Request \<times> error option" where
  "ParseForm r = (case payload r of Inl err \<Rightarrow> (r, Some err) | Inr vs \<Rightarrow> (r\<lparr>Form := vs\<rparr>, None))"

definition FormValue :: "Request \<Rightarrow> string \<Rightarrow> string" where
  "FormValue r k = (case map_of (Form r) k of Some (v # vs) \<Rightarrow> v | _ \<Rightarrow> '''')"

text \<open>\<open>cardHandler\<close> of the business card server (lines 213 to 268).\<close>

definition cardHandler_s :: "Env \<Rightarrow> ResponseWriter \<Rightarrow> Request \<Rightarrow> ResponseWriter \<times> logline list" where
  "cardHandler_s env w r =
     (if Method r \<noteq> ''POST''
      then (http_Error w ''Method not allowed'' 405, [])
      else
        (case ParseForm r of
           (r, Some err) \<Rightarrow> (http_Error w ''Failed to parse form data'' 400, [])
         | (r, None) \<Rightarrow>
             let cardData = \<lparr>Name_s = FormValue r ''name'',
                             Pronouns_s = FormValue r ''pronouns'',
                             Title_s = FormValue r ''title'',
                             Company_s = FormValue r ''company'',
                             Department_s = FormValue r ''department'',
                             Address_s = FormValue r ''address'',
                             LandGrant1_s = FormValue r ''land_grant_1'',
                             LandGrant2_s = FormValue r ''land_grant_2'',
                             LandGrant3_s = FormValue r ''land_grant_3'',
                             LandGrant4_s = FormValue r ''land_grant_4'',
                             PhoneNumber_s = FormValue r ''phone_number'',
                             Email_s = FormValue r ''email''\<rparr>;
                 bgImagePath = ''./assets/background_image.png'';
                 regularFontPath = ''./assets/Railway-Regular.ttf'';
                 boldFontPath = ''./assets/Railway-Bold.ttf'';
                 italicFontPath = ''./assets/Railway-Italic.ttf''
             in (case GenerateCard_s env bgImagePath regularFontPath boldFontPath italicFontPath cardData of
                   Inl err \<Rightarrow>
                     (http_Error w ''Failed to generate business card image'' 500,
                      [(''Error generating image: %v'', [ArgError err])])
                 | Inr img \<Rightarrow>
                     let w = Header_Set w ''Content-Type'' ''image/png'';
                         w = Header_Set w ''Content-Disposition''
                               (''attachment; filename='' @ [CHR 0x22] @ ''emailsignature.png'' @ [CHR 0x22])
                     in (case png_Encode_w env w img of
                           (w, Some err) \<Rightarrow>
                             (http_Error w ''Failed to encode PNG image'' 500,
                              [(''Error encoding image: %v'', [ArgError err])])
                         | (w, None) \<Rightarrow> (w, [])))))"

text \<open>\<open>cardHandler\<close> of the e-mail footer server (lines 472 to 521).\<close>

definition cardHandler_footer :: "Env \<Rightarrow> ResponseWriter \<Rightarrow> Request \<Rightarrow> ResponseWriter \<times> logline list" where
  "cardHandler_footer env w r =
     (if Method r \<noteq> ''POST''
      then (http_Error w ''Method not allowed'' 405, [])
      else
        (case ParseForm r of
           (r, Some err) \<Rightarrow> (http_Error w ''Failed to parse form data'' 400, [])
         | (r, None) \<Rightarrow>
             let cardData = \<lparr>Name = FormValue r ''name'',
                             Pronouns = FormValue r ''pronouns'',
                             Title = FormValue r ''title'',
                             Company = FormValue r ''company'',
                             Address = FormValue r ''address'',
                             PhoneNumber = FormValue r ''phone_number'',
                             Email = FormValue r ''email''\<rparr>;
                 bgImagePath = ''../BrandingGuidelines_2025.png'';
                 regularFontPath = ''../Raleway-Regular.ttf'';
                 boldFontPath = ''../Raleway-Bold.ttf''
             in (case GenerateCard_footer env bgImagePath regularFontPath boldFontPath cardData of
                   Inl err \<Rightarrow>
                     (http_Error w ''Failed to generate business card image'' 500,
                      [(''Error generating image: %v'', [ArgError err])])
                 | Inr img \<Rightarrow>
                     let w = Header_Set w ''Content-Type'' ''image/png'';
                         w = Header_Set w ''Content-Disposition''
                               (''attachment; filename='' @ [CHR 0x22] @ ''EmailSignature.png'' @ [CHR 0x22])
                     in (case png_Encode_w env w img of
                           (w, Some err) \<Rightarrow>
                             (http_Error w ''Failed to encode PNG image'' 500,
                              [(''Error encoding image: %v'', [ArgError err])])
                         | (w, None) \<Rightarrow> (w, [])))))"

section \<open>Notions the claims are stated with\<close>

text \<open>The fields the lexer read for a row, and the card a record of seven fields or more gives.\<close>

fun fieldsOf :: "csv_row \<Rightarrow> string list" where
  "fieldsOf (Row flds) = flds"
| "fieldsOf (Malformed flds) = flds"

definition cardOfRecord :: "string list \<Rightarrow> BusinessCard" where
  "cardOfRecord rcd =
     \<lparr>Name = rcd ! 0, Pronouns = rcd ! 1, Title = rcd ! 2, Company = rcd ! 3,
      Address = rcd ! 4, PhoneNumber = rcd ! 5, Email = rcd ! 6\<rparr>"

text \<open>
  The \<open>DrawString\<close> calls made on an image, in order: the string and the dot of each.
\<close>

definition drawn :: "RGBA \<Rightarrow> (string \<times> int \<times> int) list" where
  "drawn img =
     List.map_filter (\<lambda>op. case op of DrawString f t x y c \<Rightarrow> Some (t, x, y) | _ \<Rightarrow> None) (Ops img)"

text \<open>
  The layout the specification describes: the rows of a card in their fixed order, each
  drawn at the baseline and the baseline advanced. A row is a line that is always drawn
  (its string and its advance), the line of an optional field (the field, the string drawn
  for it and the advance) or a gap. \<open>layout\<close> draws every row it is given; a record in
  which an optional field does not exist is the list of rows without the row of that field.
\<close>

datatype row = Required string int | Optional string string int | Gap int

fun layout :: "int \<Rightarrow> int \<Rightarrow> row list \<Rightarrow> (string \<times> int \<times> int) list" where
  "layout x y [] = []"
| "layout x y (Required txt adv # rows) = (txt, x, y) # layout x (y + adv) rows"
| "layout x y (Optional fld txt adv # rows) = (txt, x, y) # layout x (y + adv) rows"
| "layout x y (Gap n # rows) = layout x (y + n) rows"

fun blank :: "row \<Rightarrow> bool" where
  "blank (Optional fld txt adv) = (fld = '''')"
| "blank (Required txt adv) = False"
| "blank (Gap n) = False"

definition rows_batch :: "BusinessCard \<Rightarrow> row list" where
  "rows_batch c =
     [Required (Name c) 20, Optional (Pronouns c) (Pronouns c) 14, Required (Title c) 15, Gap 10,
      Required (Company c) 15, Required (Address c) 13, Required (PhoneNumber c) 13,
      Required (Email c) 0]"

definition rows_footer :: "BusinessCard \<Rightarrow> row list" where
  "rows_footer c =
     [Required (Name c) 20, Optional (Pronouns c) (Pronouns c) 14, Required (Title c) 15, Gap 10,
      Required (Company c) 15, Required (Address c) 13,
      Required (formattedPhone (PhoneNumber c)) 13, Required (Email c) 0]"

definition rows_s :: "BusinessCard_s \<Rightarrow> row list" where
  "rows_s c =
     [Required (Name_s c) 41, Optional (Pronouns_s c) (Pronouns_s c) 23, Gap 10,
      Required (''Title: '' @ Title_s c) 38, Required (''Company: '' @ Company_s c) 38,
      Optional (Department_s c) (''Department: '' @ Department_s c) 38,
      Required (''Address: '' @ Address_s c) 34,
      Required (''Phone: '' @ formattedPhone (PhoneNumber_s c)) 34,
      Required (''Email: '' @ Email_s c) 34,
      Optional (LandGrant1_s c) (LandGrant1_s c) 29, Optional (LandGrant2_s c) (LandGrant2_s c) 29,
      Optional (LandGrant3_s c) (LandGrant3_s c) 29, Optional (LandGrant4_s c) (LandGrant4_s c) 29]"

text \<open>
  An environment for examples: a path that starts with \<open>./\<close> names the file of the path
  without it, the asset files of the three programs are there and decode, every file can
  be created, the CSV file holds the given rows, and \<open>png.Encode\<close> succeeds with bytes that
  depend on what was drawn.
\<close>

definition example_resolve :: "string \<Rightarrow> string" where
  "example_resolve path = (if prefix ''./'' path then drop 2 path else path)"

definition example_png :: "RGBA \<Rightarrow> string" where
  "example_png img =
     ''PNG'' @ concat (map (\<lambda>op. case op of DrawString f t x y c \<Rightarrow> ''|'' @ t | _ \<Rightarrow> '''') (Ops img))"

definition example_env :: "csv_row list \<Rightarrow> Env" where
  "example_env rows =
     \<lparr>resolve = example_resolve,
      fs = [(''BrandingGuidelines_2025.png'', File ''bg''),
            (''Raleway-Regular.ttf'', File ''regular''),
            (''Raleway-Bold.ttf'', File ''bold''),
            (''cards.csv'', File ''csv''),
            (''../BrandingGuidelines_2025.png'', File ''bg''),
            (''../Raleway-Regular.ttf'', File ''regular''),
            (''../Raleway-Bold.ttf'', File ''bold''),
            (''assets/background_image.png'', File ''bg''),
            (''assets/Railway-Regular.ttf'', File ''regular''),
            (''assets/Railway-Bold.ttf'', File ''bold''),
            (''assets/Railway-Italic.ttf'', File ''italic'')],
      creatable = (\<lambda>path. True),
      image_Decode =
        (\<lambda>bytes. Inr \<lparr>Bounds = \<lparr>Rect_Min = \<lparr>X = 0, Y = 0\<rparr>, Rect_Max = \<lparr>X = 600, Y = 200\<rparr>\<rparr>,
                        Pixels = bytes\<rparr>),
      opentype_Parse = (\<lambda>bytes. Inr (Font bytes)),
      opentype_NewFace = (\<lambda>f opts. Inr (Face f opts)),
      csv_records = (\<lambda>bytes. rows),
      png_Encode = (\<lambda>img. Encoded (example_png img))\<rparr>"

definition example_header :: "string list" where
  "example_header = [''name'', ''pronouns'', ''title'', ''company'', ''address'', ''phone'', ''email'']"

definition example_ada :: "string list" where
  "example_ada = [''Ada Lovelace'', ''she/her'', ''Analyst'', ''Engines Ltd'', ''1 Main St'',
                  ''5551234567'', ''ada@example.org'']"

definition example_bob :: "string list" where
  "example_bob = [''Bob Stone'', '''', ''Mason'', ''Engines Ltd'', ''2 Main St'',
                  ''555-1234'', ''bob@example.org'']"

definition example_card :: BusinessCard where
  "example_card = cardOfRecord example_ada"

definition example_card_s :: BusinessCard_s where
  "example_card_s =
     \<lparr>Name_s = ''Ada Lovelace'', Pronouns_s = '''', Title_s = ''Analyst'',
      Company_s = ''Engines Ltd'', Department_s = '''', Address_s = ''1 Main St'',
      LandGrant1_s = ''A land-grant institution'', LandGrant2_s = '''', LandGrant3_s = '''',
      LandGrant4_s = '''', PhoneNumber_s = ''555.123.4567'', Email_s = ''ada@example.org''\<rparr>"

text \<open>The card records the two handlers build from the form values of a request.\<close>

definition cardOfForm_s :: "Request \<Rightarrow> BusinessCard_s" where
  "cardOfForm_s r =
     \<lparr>Name_s = FormValue r ''name'', Pronouns_s = FormValue r ''pronouns'',
      Title_s = FormValue r ''title'', Company_s = FormValue r ''company'',
      Department_s = FormValue r ''department'', Address_s = FormValue r ''address'',
      LandGrant1_s = FormValue r ''land_grant_1'', LandGrant2_s = FormValue r ''land_grant_2'',
      LandGrant3_s = FormValue r ''land_grant_3'', LandGrant4_s = FormValue r ''land_grant_4'',
      PhoneNumber_s = FormValue r ''phone_number'', Email_s = FormValue r ''email''\<rparr>"

definition cardOfForm :: "Request \<Rightarrow> BusinessCard" where
  "cardOfForm r =
     \<lparr>Name = FormValue r ''name'', Pronouns = FormValue r ''pronouns'',
      Title = FormValue r ''title'', Company = FormValue r ''company'',
      Address = FormValue r ''address'', PhoneNumber = FormValue r ''phone_number'',
      Email = FormValue r ''email''\<rparr>"

text \<open>
  A response writer on which nothing has been set or written, a request whose form
  parses, and an environment in which \<open>png.Encode\<close> fails after it has written the first
  three bytes of the encoding.
\<close>

definition example_w :: ResponseWriter where
  "example_w = \<lparr>Header = [], Status = None, Sent = [], Body = ''''\<rparr>"

definition example_request :: Request where
  "example_request =
     \<lparr>Method = ''POST'',
      payload = Inr [(''name'', [''Ada Lovelace'']), (''title'', [''Analyst'']),
                     (''company'', [''Engines Ltd'']), (''address'', [''1 Main St'']),
                     (''phone_number'', [''5551234567'']), (''email'', [''ada@example.org''])],
      Form = []\<rparr>"

definition example_env_broken :: Env where
  "example_env_broken =
     (example_env [])\<lparr>png_Encode :=
        (\<lambda>img. EncodeFailed (Some (take 3 (example_png img))) (LibError ''write: broken pipe''))\<rparr>"

text \<open>
  The bytes \<open>main\<close> writes for a card: the encoding of the image \<open>GenerateCard\<close> returns
  for it on the asset paths of \<open>main\<close>, when both succeed. \<open>assetFiles\<close> are the files these
  paths name. \<open>writeCard\<close> is the effect of one successful turn of the loop on the file
  system, and \<open>successLine\<close> the line it prints.
\<close>

definition cardPNG :: "Env \<Rightarrow> BusinessCard \<Rightarrow> string option" where
  "cardPNG env c =
     (case GenerateCard env ''./BrandingGuidelines_2025.png'' ''./Raleway-Regular.ttf''
             ''./Raleway-Bold.ttf'' c of
        Inl err \<Rightarrow> None
      | Inr img \<Rightarrow>
          (case png_Encode env img of
             Encoded bytes \<Rightarrow> Some bytes
           | EncodeFailed written err \<Rightarrow> None))"

definition assetFiles :: "Env \<Rightarrow> string list" where
  "assetFiles env =
     [resolve env ''./BrandingGuidelines_2025.png'', resolve env ''./Raleway-Regular.ttf'',
      resolve env ''./Raleway-Bold.ttf'']"

definition writeCard :: "Env \<Rightarrow> BusinessCard \<Rightarrow> (string \<times> fsentry) list \<Rightarrow> (string \<times> fsentry) list" where
  "writeCard env c al =
     (case cardPNG env c of
        None \<Rightarrow> al
      | Some bytes \<Rightarrow> AList.update (resolve env (outputFileName c)) (File bytes) al)"

definition successLine :: "BusinessCard \<Rightarrow> string" where
  "successLine c = ''Successfully generated business card: '' @ outputFileName c @ [CHR 0x0A]"

definition example_ada2 :: "string list" where
  "example_ada2 = [''Ada Lovelace'', ''they/them'', ''Poet'', ''Byron and Co'', ''3 Side St'',
                   ''555-9999'', ''ada@byron.example'']"

definition example_ada3 :: "string list" where
  "example_ada3 = [''./Ada Lovelace'', ''they/them'', ''Poet'', ''Byron and Co'', ''3 Side St'',
                   ''555-9999'', ''ada@byron.example'']"

definition example_bob_card :: BusinessCard where
  "example_bob_card = cardOfRecord example_bob"

definition example_ada2_card :: BusinessCard where
  "example_ada2_card = cardOfRecord example_ada2"

definition example_ada3_card :: BusinessCard where
  "example_ada3_card = cardOfRecord example_ada3"

section \<open>Properties of the string functions\<close>

lemma strings_ReplaceAll_single:
  "strings_ReplaceAll s [a] [b] = map (\<lambda>c. if c = a then b else c) s"
  by (induction s) auto

lemma digit_iff:
  "((48::nat) \<le> of_char r \<and> of_char r \<le> (57::nat)) \<longleftrightarrow> r \<in> set ''0123456789''"
proof
  assume a: "(48::nat) \<le> of_char r \<and> of_char r \<le> (57::nat)"
  define n :: nat where "n = of_char r"
  from a have "48 \<le> n" "n \<le> 57"
    by (simp_all add: n_def)
  then have "n = 48 \<or> n = 49 \<or> n = 50 \<or> n = 51 \<or> n = 52 \<or> n = 53 \<or> n = 54 \<or> n = 55
      \<or> n = 56 \<or> n = 57"
    by arith
  then have "n = of_char CHR ''0'' \<or> n = of_char CHR ''1'' \<or> n = of_char CHR ''2''
      \<or> n = of_char CHR ''3'' \<or> n = of_char CHR ''4'' \<or> n = of_char CHR ''5''
      \<or> n = of_char CHR ''6'' \<or> n = of_char CHR ''7'' \<or> n = of_char CHR ''8''
      \<or> n = of_char CHR ''9''"
    by simp
  then show "r \<in> set ''0123456789''"
    unfolding n_def of_char_eq_iff by auto
next
  assume "r \<in> set ''0123456789''"
  then show "(48::nat) \<le> of_char r \<and> of_char r \<le> (57::nat)" by auto
qed

lemma digitsOnly_filter: "digitsOnly p = filter (\<lambda>r. r \<in> set ''0123456789'') p"
  unfolding digitsOnly_def strings_Map_def List.map_filter_def digit_iff
  by (induction p) auto

lemma formattedPhone_digits:
  "formattedPhone p =
     (if length (filter (\<lambda>r. r \<in> set ''0123456789'') p) = 10
      then ''('' @ take 3 (filter (\<lambda>r. r \<in> set ''0123456789'') p) @ '') ''
           @ take 3 (drop 3 (filter (\<lambda>r. r \<in> set ''0123456789'') p)) @ ''-''
           @ drop 6 (filter (\<lambda>r. r \<in> set ''0123456789'') p)
      else p)"
  by (simp add: formattedPhone_def digitsOnly_filter slice_def)

section \<open>Properties of the renderers\<close>

lemma drawn_simps [simp]:
  "drawn (image_NewRGBA r) = []"
  "drawn (draw_Draw img r src sp) = drawn img"
  "drawn (drawText img face txt x y c) = drawn img @ [(txt, x, y)]"
  by (simp_all add: drawn_def image_NewRGBA_def draw_Draw_def drawText_def List.map_filter_def)

lemma Rect_simps [simp]:
  "Rect (image_NewRGBA r) = r"
  "Rect (draw_Draw img r src sp) = Rect img"
  "Rect (drawText img face txt x y c) = Rect img"
  by (simp_all add: image_NewRGBA_def draw_Draw_def drawText_def)

text \<open>
  What a successful call returns: an image on the bounds of the decoded background, with
  the strings of the rows that are not blank drawn from the first baseline down.
\<close>

lemma GenerateCard_Inr:
  "GenerateCard env bg reg bold c = Inr img \<Longrightarrow>
     (\<exists>bgFile bgImage. os_Open env bg = Inr bgFile \<and> image_Decode env bgFile = Inr bgImage
         \<and> Rect img = Bounds bgImage)
     \<and> drawn img = layout 70 25 (filter (\<lambda>r. \<not> blank r) (rows_batch c))"
  unfolding GenerateCard_def
  by (auto simp: Let_def rows_batch_def split: sum.splits if_splits)

lemma GenerateCard_footer_Inr:
  "GenerateCard_footer env bg reg bold c = Inr img \<Longrightarrow>
     (\<exists>bgFile bgImage. os_Open env bg = Inr bgFile \<and> image_Decode env bgFile = Inr bgImage
         \<and> Rect img = Bounds bgImage)
     \<and> drawn img = layout 70 25 (filter (\<lambda>r. \<not> blank r) (rows_footer c))"
  unfolding GenerateCard_footer_def
  by (auto simp: Let_def rows_footer_def split: sum.splits if_splits)

lemma GenerateCard_s_Inr:
  "GenerateCard_s env bg reg bold ital c = Inr img \<Longrightarrow>
     (\<exists>bgFile bgImage. os_Open env bg = Inr bgFile \<and> image_Decode env bgFile = Inr bgImage
         \<and> Rect img = Bounds bgImage)
     \<and> drawn img = layout 50 100 (filter (\<lambda>r. \<not> blank r) (rows_s c))"
  unfolding GenerateCard_s_def
  by (auto simp: Let_def rows_s_def split: sum.splits if_splits)

text \<open>In the example environment every card is rendered.\<close>

lemma example_GenerateCard:
  "\<exists>img. GenerateCard (example_env rows) ''./BrandingGuidelines_2025.png''
      ''./Raleway-Regular.ttf'' ''./Raleway-Bold.ttf'' c = Inr img"
  by (simp add: GenerateCard_def example_env_def example_resolve_def os_Open_def ioutil_ReadFile_def Let_def)

lemma example_GenerateCard_footer:
  "\<exists>img. GenerateCard_footer (example_env rows) ''../BrandingGuidelines_2025.png''
      ''../Raleway-Regular.ttf'' ''../Raleway-Bold.ttf'' c = Inr img"
  by (simp add: GenerateCard_footer_def example_env_def example_resolve_def os_Open_def ioutil_ReadFile_def Let_def)

lemma example_GenerateCard_s:
  "\<exists>img. GenerateCard_s (example_env rows) ''./assets/background_image.png''
      ''./assets/Railway-Regular.ttf'' ''./assets/Railway-Bold.ttf''
      ''./assets/Railway-Italic.ttf'' c = Inr img"
  by (simp add: GenerateCard_s_def example_env_def example_resolve_def os_Open_def ioutil_ReadFile_def Let_def)

lemma example_phones:
  "formattedPhone ''5551234567'' = ''(555) 123-4567''"
  "formattedPhone ''555.123.4567'' = ''(555) 123-4567''"
  "formattedPhone ''555-1234'' = ''555-1234''"
  by (simp_all add: formattedPhone_def digitsOnly_def strings_Map_def List.map_filter_def slice_def)

section \<open>Claims about the renderers\<close>

text \<open>
  C5. In batch mode the output file name of a card is its \<open>Name\<close> with every space
  replaced by an underscore, followed by \<open>_email_signature.png\<close>.
\<close>

theorem C5_outputFileName:
  "outputFileName cardData =
     map (\<lambda>c. if c = CHR '' '' then CHR ''_'' else c) (Name cardData) @ ''_email_signature.png''"
  by (simp add: outputFileName_def sanitizedName_def strings_ReplaceAll_single)

text \<open>
  C10. A successful call of \<open>GenerateCard\<close>, in each of the three programs, returns an image
  (\<open>Inr img\<close>, the non-nil image with a nil error) whose rectangle is the bounds of the
  background image that was opened and decoded; drawing text leaves the rectangle as it is.
\<close>

theorem C10_bounds:
  "(GenerateCard env bg reg bold c = Inr img \<longrightarrow>
      (\<exists>bgFile bgImage. os_Open env bg = Inr bgFile \<and> image_Decode env bgFile = Inr bgImage
          \<and> Rect img = Bounds bgImage))
   \<and> (GenerateCard_footer env bg reg bold c = Inr img \<longrightarrow>
      (\<exists>bgFile bgImage. os_Open env bg = Inr bgFile \<and> image_Decode env bgFile = Inr bgImage
          \<and> Rect img = Bounds bgImage))
   \<and> (GenerateCard_s env bg reg bold ital cs = Inr img \<longrightarrow>
      (\<exists>bgFile bgImage. os_Open env bg = Inr bgFile \<and> image_Decode env bgFile = Inr bgImage
          \<and> Rect img = Bounds bgImage))
   \<and> Rect (drawText img face txt x y col) = Rect img"
proof (intro conjI impI)
  assume "GenerateCard env bg reg bold c = Inr img"
  then show "\<exists>bgFile bgImage. os_Open env bg = Inr bgFile \<and> image_Decode env bgFile = Inr bgImage
      \<and> Rect img = Bounds bgImage"
    by (rule GenerateCard_Inr [THEN conjunct1])
next
  assume "GenerateCard_footer env bg reg bold c = Inr img"
  then show "\<exists>bgFile bgImage. os_Open env bg = Inr bgFile \<and> image_Decode env bgFile = Inr bgImage
      \<and> Rect img = Bounds bgImage"
    by (rule GenerateCard_footer_Inr [THEN conjunct1])
next
  assume "GenerateCard_s env bg reg bold ital cs = Inr img"
  then show "\<exists>bgFile bgImage. os_Open env bg = Inr bgFile \<and> image_Decode env bgFile = Inr bgImage
      \<and> Rect img = Bounds bgImage"
    by (rule GenerateCard_s_Inr [THEN conjunct1])
next
  show "Rect (drawText img face txt x y col) = Rect img"
    by simp
qed

theorem C10_bounds_witness:
  "\<exists>img. GenerateCard (example_env []) ''./BrandingGuidelines_2025.png'' ''./Raleway-Regular.ttf''
       ''./Raleway-Bold.ttf'' example_card = Inr img
     \<and> os_Open (example_env []) ''./BrandingGuidelines_2025.png'' = Inr ''bg''
     \<and> Rect img = \<lparr>Rect_Min = \<lparr>X = 0, Y = 0\<rparr>, Rect_Max = \<lparr>X = 600, Y = 200\<rparr>\<rparr>"
proof -
  obtain img where img: "GenerateCard (example_env []) ''./BrandingGuidelines_2025.png''
       ''./Raleway-Regular.ttf'' ''./Raleway-Bold.ttf'' example_card = Inr img"
    using example_GenerateCard by blast
  have "\<exists>bgFile bgImage. os_Open (example_env []) ''./BrandingGuidelines_2025.png'' = Inr bgFile
      \<and> image_Decode (example_env []) bgFile = Inr bgImage \<and> Rect img = Bounds bgImage"
    using img C10_bounds [of "example_env []" "''./BrandingGuidelines_2025.png''"
        "''./Raleway-Regular.ttf''" "''./Raleway-Bold.ttf''" example_card img]
    by blast
  then have "os_Open (example_env []) ''./BrandingGuidelines_2025.png'' = Inr ''bg''
      \<and> Rect img = \<lparr>Rect_Min = \<lparr>X = 0, Y = 0\<rparr>, Rect_Max = \<lparr>X = 600, Y = 200\<rparr>\<rparr>"
    by (auto simp: example_env_def example_resolve_def os_Open_def)
  with img show ?thesis by (intro exI [of _ img]) simp
qed

text \<open>
  C4. The strings drawn on a card, with their dots, are those of the layout of the card's
  rows from which the rows of the empty optional fields have been removed: for an optional
  field that is empty (pronouns in the three programs; the department and the four
  land-grant lines in the business card server) no string is drawn and the baseline is not
  advanced, and the lines after it stand where they would if the record had no such field.
\<close>

theorem C4_blank_optional_fields:
  "(GenerateCard env bg reg bold c = Inr img \<longrightarrow>
      drawn img = layout 70 25 (filter (\<lambda>r. \<not> blank r) (rows_batch c)))
   \<and> (GenerateCard_footer env bg reg bold c = Inr img \<longrightarrow>
      drawn img = layout 70 25 (filter (\<lambda>r. \<not> blank r) (rows_footer c)))
   \<and> (GenerateCard_s env bg reg bold ital cs = Inr img \<longrightarrow>
      drawn img = layout 50 100 (filter (\<lambda>r. \<not> blank r) (rows_s cs)))"
  using GenerateCard_Inr [of env bg reg bold c img]
    GenerateCard_footer_Inr [of env bg reg bold c img]
    GenerateCard_s_Inr [of env bg reg bold ital cs img]
  by blast

theorem C4_blank_optional_fields_witness:
  "\<exists>img. GenerateCard_s (example_env []) ''./assets/background_image.png''
       ''./assets/Railway-Regular.ttf'' ''./assets/Railway-Bold.ttf''
       ''./assets/Railway-Italic.ttf'' example_card_s = Inr img
     \<and> drawn img =
         [(''Ada Lovelace'', 50, 100), (''Title: Analyst'', 50, 151),
          (''Company: Engines Ltd'', 50, 189), (''Address: 1 Main St'', 50, 227),
          (''Phone: (555) 123-4567'', 50, 261), (''Email: ada@example.org'', 50, 295),
          (''A land-grant institution'', 50, 329)]"
proof -
  obtain img where img: "GenerateCard_s (example_env []) ''./assets/background_image.png''
       ''./assets/Railway-Regular.ttf'' ''./assets/Railway-Bold.ttf''
       ''./assets/Railway-Italic.ttf'' example_card_s = Inr img"
    using example_GenerateCard_s by blast
  have "drawn img = layout 50 100 (filter (\<lambda>r. \<not> blank r) (rows_s example_card_s))"
    using img C4_blank_optional_fields [where env = "example_env []"
        and bg = "''./assets/background_image.png''" and reg = "''./assets/Railway-Regular.ttf''"
        and bold = "''./assets/Railway-Bold.ttf''" and ital = "''./assets/Railway-Italic.ttf''"
        and cs = example_card_s and img = img]
    by blast
  then have "drawn img =
         [(''Ada Lovelace'', 50, 100), (''Title: Analyst'', 50, 151),
          (''Company: Engines Ltd'', 50, 189), (''Address: 1 Main St'', 50, 227),
          (''Phone: (555) 123-4567'', 50, 261), (''Email: ada@example.org'', 50, 295),
          (''A land-grant institution'', 50, 329)]"
    by (simp add: rows_s_def example_card_s_def example_phones)
  with img show ?thesis by (intro exI [of _ img] conjI)
qed

text \<open>The batch program on the example card, evaluated.\<close>

lemma example_batch_ada:
  "GenerateCard (example_env []) ''./BrandingGuidelines_2025.png'' ''./Raleway-Regular.ttf''
      ''./Raleway-Bold.ttf'' example_card =
   Inr \<lparr>Rect = \<lparr>Rect_Min = \<lparr>X = 0, Y = 0\<rparr>, Rect_Max = \<lparr>X = 600, Y = 200\<rparr>\<rparr>,
        Ops = [Draw_Src \<lparr>Rect_Min = \<lparr>X = 0, Y = 0\<rparr>, Rect_Max = \<lparr>X = 600, Y = 200\<rparr>\<rparr>
                 \<lparr>Bounds = \<lparr>Rect_Min = \<lparr>X = 0, Y = 0\<rparr>, Rect_Max = \<lparr>X = 600, Y = 200\<rparr>\<rparr>,
                  Pixels = ''bg''\<rparr> \<lparr>X = 0, Y = 0\<rparr>,
               DrawString (Face (Font ''bold'') \<lparr>Size = 20, DPI = 72, Hinting = HintingFull\<rparr>)
                 ''Ada Lovelace'' 70 25 (color_RGBA 242 103 34 255),
               DrawString (Face (Font ''regular'') \<lparr>Size = 13, DPI = 72, Hinting = HintingFull\<rparr>)
                 ''she/her'' 70 45 (color_RGBA 109 110 113 255),
               DrawString (Face (Font ''bold'') \<lparr>Size = 15, DPI = 72, Hinting = HintingFull\<rparr>)
                 ''Analyst'' 70 59 (color_RGBA 0 48 71 255),
               DrawString (Face (Font ''bold'') \<lparr>Size = 14, DPI = 72, Hinting = HintingFull\<rparr>)
                 ''Engines Ltd'' 70 84 (color_RGBA 109 110 113 255),
               DrawString (Face (Font ''regular'') \<lparr>Size = 13, DPI = 72, Hinting = HintingFull\<rparr>)
                 ''1 Main St'' 70 99 (color_RGBA 109 110 113 255),
               DrawString (Face (Font ''regular'') \<lparr>Size = 13, DPI = 72, Hinting = HintingFull\<rparr>)
                 ''5551234567'' 70 112 (color_RGBA 109 110 113 255),
               DrawString (Face (Font ''regular'') \<lparr>Size = 13, DPI = 72, Hinting = HintingFull\<rparr>)
                 ''ada@example.org'' 70 125 (color_RGBA 109 110 113 255)]\<rparr>"
  by (simp add: GenerateCard_def example_env_def example_resolve_def os_Open_def ioutil_ReadFile_def Let_def
     image_NewRGBA_def draw_Draw_def drawText_def example_card_def cardOfRecord_def example_ada_def)

text \<open>
  C1, as the specification states it for every program, fails for the batch program: the
  phone number of the example card has exactly ten digits, and the batch program draws it as
  it stands, not as \<open>(555) 123-4567\<close>.
\<close>

theorem C1_batch_counterexample:
  "length (digitsOnly (PhoneNumber example_card)) = 10
   \<and> formattedPhone (PhoneNumber example_card) = ''(555) 123-4567''
   \<and> map fst (drawn (projr (GenerateCard (example_env []) ''./BrandingGuidelines_2025.png''
         ''./Raleway-Regular.ttf'' ''./Raleway-Bold.ttf'' example_card))) =
       [''Ada Lovelace'', ''she/her'', ''Analyst'', ''Engines Ltd'', ''1 Main St'', ''5551234567'',
        ''ada@example.org'']"
  by (simp add: example_batch_ada drawn_def List.map_filter_def)
     (simp add: example_card_def cardOfRecord_def example_ada_def example_phones
        digitsOnly_def strings_Map_def List.map_filter_def)

text \<open>
  C1, amended. The two servers draw, as the line of the phone number, the formatted phone
  number (after \<open>Phone: \<close> in the business card server), and the batch program draws
  the phone number as given. The formatted phone number of \<open>p\<close> is
  \<open>(XXX) XXX-XXXX\<close>, made of the digits of \<open>p\<close> in their order, when \<open>p\<close> has exactly ten
  characters in \<open>0..9\<close>, and it is \<open>p\<close> unchanged otherwise.
\<close>

theorem C1_phone_format:
  "(GenerateCard_footer env bg reg bold c = Inr img \<longrightarrow>
      map fst (drawn img) =
        [Name c] @ (if Pronouns c = '''' then [] else [Pronouns c])
        @ [Title c, Company c, Address c, formattedPhone (PhoneNumber c), Email c])
   \<and> (GenerateCard_s env bg reg bold ital cs = Inr img \<longrightarrow>
      map fst (drawn img) =
        [Name_s cs] @ (if Pronouns_s cs = '''' then [] else [Pronouns_s cs])
        @ [''Title: '' @ Title_s cs, ''Company: '' @ Company_s cs]
        @ (if Department_s cs = '''' then [] else [''Department: '' @ Department_s cs])
        @ [''Address: '' @ Address_s cs, ''Phone: '' @ formattedPhone (PhoneNumber_s cs),
           ''Email: '' @ Email_s cs]
        @ filter (\<lambda>t. t \<noteq> '''') [LandGrant1_s cs, LandGrant2_s cs, LandGrant3_s cs, LandGrant4_s cs])
   \<and> (GenerateCard env bg reg bold c = Inr img \<longrightarrow>
      map fst (drawn img) =
        [Name c] @ (if Pronouns c = '''' then [] else [Pronouns c])
        @ [Title c, Company c, Address c, PhoneNumber c, Email c])
   \<and> formattedPhone p =
       (if length (filter (\<lambda>r. r \<in> set ''0123456789'') p) = 10
        then ''('' @ take 3 (filter (\<lambda>r. r \<in> set ''0123456789'') p) @ '') ''
             @ take 3 (drop 3 (filter (\<lambda>r. r \<in> set ''0123456789'') p)) @ ''-''
             @ drop 6 (filter (\<lambda>r. r \<in> set ''0123456789'') p)
        else p)"
proof (intro conjI impI)
  assume "GenerateCard_footer env bg reg bold c = Inr img"
  then have "drawn img = layout 70 25 (filter (\<lambda>r. \<not> blank r) (rows_footer c))"
    by (rule GenerateCard_footer_Inr [THEN conjunct2])
  then show "map fst (drawn img) =
        [Name c] @ (if Pronouns c = '''' then [] else [Pronouns c])
        @ [Title c, Company c, Address c, formattedPhone (PhoneNumber c), Email c]"
    by (simp add: rows_footer_def)
next
  assume "GenerateCard_s env bg reg bold ital cs = Inr img"
  then have "drawn img = layout 50 100 (filter (\<lambda>r. \<not> blank r) (rows_s cs))"
    by (rule GenerateCard_s_Inr [THEN conjunct2])
  then show "map fst (drawn img) =
        [Name_s cs] @ (if Pronouns_s cs = '''' then [] else [Pronouns_s cs])
        @ [''Title: '' @ Title_s cs, ''Company: '' @ Company_s cs]
        @ (if Department_s cs = '''' then [] else [''Department: '' @ Department_s cs])
        @ [''Address: '' @ Address_s cs, ''Phone: '' @ formattedPhone (PhoneNumber_s cs),
           ''Email: '' @ Email_s cs]
        @ filter (\<lambda>t. t \<noteq> '''') [LandGrant1_s cs, LandGrant2_s cs, LandGrant3_s cs, LandGrant4_s cs]"
    by (simp add: rows_s_def)
next
  assume "GenerateCard env bg reg bold c = Inr img"
  then have "drawn img = layout 70 25 (filter (\<lambda>r. \<not> blank r) (rows_batch c))"
    by (rule GenerateCard_Inr [THEN conjunct2])
  then show "map fst (drawn img) =
        [Name c] @ (if Pronouns c = '''' then [] else [Pronouns c])
        @ [Title c, Company c, Address c, PhoneNumber c, Email c]"
    by (simp add: rows_batch_def)
next
  show "formattedPhone p =
       (if length (filter (\<lambda>r. r \<in> set ''0123456789'') p) = 10
        then ''('' @ take 3 (filter (\<lambda>r. r \<in> set ''0123456789'') p) @ '') ''
             @ take 3 (drop 3 (filter (\<lambda>r. r \<in> set ''0123456789'') p)) @ ''-''
             @ drop 6 (filter (\<lambda>r. r \<in> set ''0123456789'') p)
        else p)"
    by (rule formattedPhone_digits)
qed

theorem C1_phone_format_witness:
  "\<exists>img. GenerateCard_footer (example_env []) ''../BrandingGuidelines_2025.png''
       ''../Raleway-Regular.ttf'' ''../Raleway-Bold.ttf'' example_card = Inr img
     \<and> map fst (drawn img) =
         [''Ada Lovelace'', ''she/her'', ''Analyst'', ''Engines Ltd'', ''1 Main St'',
          ''(555) 123-4567'', ''ada@example.org'']"
proof -
  obtain img where img: "GenerateCard_footer (example_env []) ''../BrandingGuidelines_2025.png''
       ''../Raleway-Regular.ttf'' ''../Raleway-Bold.ttf'' example_card = Inr img"
    using example_GenerateCard_footer by blast
  have "map fst (drawn img) =
        [Name example_card] @ (if Pronouns example_card = '''' then [] else [Pronouns example_card])
        @ [Title example_card, Company example_card, Address example_card,
           formattedPhone (PhoneNumber example_card), Email example_card]"
    using img C1_phone_format [where env = "example_env []"
        and bg = "''../BrandingGuidelines_2025.png''" and reg = "''../Raleway-Regular.ttf''"
        and bold = "''../Raleway-Bold.ttf''" and c = example_card and img = img]
    by blast
  then have "map fst (drawn img) =
         [''Ada Lovelace'', ''she/her'', ''Analyst'', ''Engines Ltd'', ''1 Main St'',
          ''(555) 123-4567'', ''ada@example.org'']"
    by (simp add: example_card_def cardOfRecord_def example_ada_def example_phones)
  with img show ?thesis by (intro exI [of _ img] conjI)
qed

section \<open>Properties of reading the cards\<close>

lemma csv_Read_step:
  "snd (fst (csv_Read reader)) = None \<Longrightarrow>
     \<exists>row rest. input reader = row # rest \<and> fst (fst (csv_Read reader)) = fieldsOf row
        \<and> input (snd (csv_Read reader)) = rest"
  by (auto simp: csv_Read_def Let_def split: list.splits if_splits csv_row.splits)

lemma csv_Read_EOF:
  "snd (fst (csv_Read reader)) = Some io_EOF \<longleftrightarrow> input reader = []"
  by (auto simp: csv_Read_def Let_def split: list.splits if_splits csv_row.splits)

text \<open>The cards of a successful loop come from the rows the reader still had to read.\<close>

lemma readCardsLoop_cards:
  "readCardsLoop reader cards logs = (logs', Inr cards') \<Longrightarrow>
     cards' = cards @ map cardOfRecord (filter (\<lambda>rcd. 7 \<le> length rcd) (map fieldsOf (input reader)))"
proof (induction reader cards logs rule: readCardsLoop.induct)
  case (1 reader cards logs)
  show ?case
  proof (cases "snd (fst (csv_Read reader))")
    case (Some e)
    with "1.prems" show ?thesis
      using csv_Read_EOF [of reader]
      by (subst (asm) readCardsLoop.simps) (auto simp: Let_def split: if_splits)
  next
    case None
    then obtain row rest where r: "input reader = row # rest"
      "fst (fst (csv_Read reader)) = fieldsOf row" "input (snd (csv_Read reader)) = rest"
      using csv_Read_step by blast
    show ?thesis
    proof (cases "length (fieldsOf row) < 7")
      case True
      with None r "1.prems" "1.IH"(1) [OF refl refl refl refl] show ?thesis
        by (subst (asm) readCardsLoop.simps) (auto simp: Let_def)
    next
      case False
      with None r "1.prems" "1.IH"(2) [OF refl refl refl refl] show ?thesis
        by (subst (asm) readCardsLoop.simps) (auto simp: Let_def cardOfRecord_def)
    qed
  qed
qed

text \<open>
  Once the header has fixed the number of fields: rows of that many fields, seven or more,
  all become cards; and the first row of another number of fields is an error.
\<close>

lemma readCardsLoop_wellformed:
  "FieldsPerRecord reader = int k \<Longrightarrow> 7 \<le> k \<Longrightarrow> input reader = map Row rows \<Longrightarrow>
   \<forall>r\<in>set rows. length r = k \<Longrightarrow>
     readCardsLoop reader cards logs = (logs, Inr (cards @ map cardOfRecord rows))"
proof (induction rows arbitrary: reader cards)
  case Nil
  then show ?case
    by (subst readCardsLoop.simps) (simp add: csv_Read_def)
next
  case (Cons r rows)
  have "readCardsLoop (reader\<lparr>input := map Row rows\<rparr>) (cards @ [cardOfRecord r]) logs
      = (logs, Inr ((cards @ [cardOfRecord r]) @ map cardOfRecord rows))"
    using Cons.prems by (intro Cons.IH) auto
  with Cons.prems show ?case
    by (subst readCardsLoop.simps) (simp add: csv_Read_def Let_def cardOfRecord_def)
qed

lemma readCardsLoop_field_count:
  "FieldsPerRecord reader = int k \<Longrightarrow> 0 < k \<Longrightarrow> input reader = map Row good @ Row r # rest \<Longrightarrow>
   \<forall>g\<in>set good. length g = k \<Longrightarrow> length r \<noteq> k \<Longrightarrow>
     snd (readCardsLoop reader cards logs) = Inl (Errorf_w ''failed to read CSV record'' csv_ErrFieldCount)"
proof (induction good arbitrary: reader cards logs)
  case Nil
  then show ?case
    by (subst readCardsLoop.simps) (simp add: csv_Read_def Let_def)
next
  case (Cons g good)
  have step: "\<And>cards' logs'. snd (readCardsLoop (reader\<lparr>input := map Row good @ Row r # rest\<rparr>) cards' logs')
      = Inl (Errorf_w ''failed to read CSV record'' csv_ErrFieldCount)"
    using Cons.prems by (intro Cons.IH) auto
  from Cons.prems show ?case
    by (subst readCardsLoop.simps) (simp add: csv_Read_def Let_def step)
qed

lemma readCardsFromCSV_field_count:
  assumes "os_Open env csvPath = Inr content"
    and "csv_records env content = Row header # map Row good @ Row r # rest"
    and "header \<noteq> []" and "\<forall>g\<in>set good. length g = length header"
    and "length r \<noteq> length header"
  shows "snd (readCardsFromCSV env csvPath)
    = Inl (Errorf_w ''failed to read CSV record'' csv_ErrFieldCount)"
proof -
  have "snd (readCardsLoop \<lparr>FieldsPerRecord = int (length header), input = map Row good @ Row r # rest\<rparr> [] [])
      = Inl (Errorf_w ''failed to read CSV record'' csv_ErrFieldCount)"
    using assms by (intro readCardsLoop_field_count [where k = "length header" and good = good]) auto
  with assms show ?thesis
    by (simp add: readCardsFromCSV_def csv_NewReader_def csv_Read_def Let_def)
qed

lemma readCardsFromCSV_wellformed:
  assumes "os_Open env csvPath = Inr content"
    and "csv_records env content = Row header # map Row rows"
    and "\<forall>r\<in>set rows. length r = length header \<and> 7 \<le> length r"
  shows "readCardsFromCSV env csvPath = ([], Inr (map cardOfRecord rows))"
proof (cases rows)
  case Nil
  with assms show ?thesis
    by (simp add: readCardsFromCSV_def csv_NewReader_def csv_Read_def Let_def)
       (subst readCardsLoop.simps, simp add: csv_Read_def)+
next
  case (Cons r rs)
  with assms have k: "7 \<le> length header" by auto
  have "readCardsLoop \<lparr>FieldsPerRecord = int (length header), input = map Row rows\<rparr> [] []
      = ([], Inr ([] @ map cardOfRecord rows))"
    using assms k by (intro readCardsLoop_wellformed [where k = "length header"]) auto
  with assms k show ?thesis
    by (simp add: readCardsFromCSV_def csv_NewReader_def csv_Read_def Let_def)
qed

lemma example_os_Open_csv: "os_Open (example_env rows) ''./cards.csv'' = Inr ''csv''"
  by (simp add: os_Open_def example_env_def example_resolve_def)

lemma example_csv_records: "csv_records (example_env rows) content = rows"
  by (simp add: example_env_def example_resolve_def)

section \<open>Claims about reading the cards\<close>

text \<open>
  C7. \<open>readCardsFromCSV\<close> on a file that opens: when the file has no record at all, the
  result is the error \<open>CSV file is empty\<close>, not an empty list; when it has a first record
  and the call succeeds, the cards are those of the records after the first, so the first
  record is no card; a file of a header alone gives the empty list.
\<close>

theorem C7_header_discarded:
  assumes "os_Open env csvPath = Inr content"
  shows "(csv_records env content = [] \<longrightarrow>
            readCardsFromCSV env csvPath = ([], Inl (Errorf ''CSV file is empty'')))
       \<and> (csv_records env content = header # rest \<and> readCardsFromCSV env csvPath = (logs, Inr cards) \<longrightarrow>
            cards = map cardOfRecord (filter (\<lambda>rcd. 7 \<le> length rcd) (map fieldsOf rest)))
       \<and> (csv_records env content = [Row header'] \<longrightarrow> readCardsFromCSV env csvPath = ([], Inr []))"
proof (intro conjI impI)
  assume "csv_records env content = []"
  with assms show "readCardsFromCSV env csvPath = ([], Inl (Errorf ''CSV file is empty''))"
    by (simp add: readCardsFromCSV_def csv_NewReader_def csv_Read_def Let_def)
next
  assume a: "csv_records env content = header # rest \<and> readCardsFromCSV env csvPath = (logs, Inr cards)"
  define reader where "reader = snd (csv_Read (csv_NewReader (header # rest)))"
  have inp: "input reader = rest"
    by (simp add: reader_def csv_NewReader_def csv_Read_def Let_def)
  from a assms have "readCardsLoop reader [] [] = (logs, Inr cards)"
    by (auto simp: readCardsFromCSV_def Let_def reader_def split: if_splits)
  from readCardsLoop_cards [OF this] inp
  show "cards = map cardOfRecord (filter (\<lambda>rcd. 7 \<le> length rcd) (map fieldsOf rest))"
    by simp
next
  assume "csv_records env content = [Row header']"
  with assms show "readCardsFromCSV env csvPath = ([], Inr [])"
    by (simp add: readCardsFromCSV_def csv_NewReader_def csv_Read_def Let_def)
       (subst readCardsLoop.simps, simp add: csv_Read_def)+
qed

theorem C7_header_discarded_witness:
  "os_Open (example_env [Row example_header, Row example_ada]) ''./cards.csv'' = Inr ''csv''
   \<and> readCardsFromCSV (example_env [Row example_header, Row example_ada]) ''./cards.csv''
       = ([], Inr [example_card])
   \<and> [example_card] = map cardOfRecord (filter (\<lambda>rcd. 7 \<le> length rcd) (map fieldsOf [Row example_ada]))
   \<and> readCardsFromCSV (example_env []) ''./cards.csv'' = ([], Inl (Errorf ''CSV file is empty''))"
proof -
  have r: "readCardsFromCSV (example_env [Row example_header, Row example_ada]) ''./cards.csv''
       = ([], Inr [example_card])"
    using readCardsFromCSV_wellformed [of "example_env [Row example_header, Row example_ada]"
        "''./cards.csv''" "''csv''" example_header "[example_ada]"]
    by (simp add: example_os_Open_csv example_csv_records example_header_def example_ada_def
        example_card_def)
  show ?thesis
    using r C7_header_discarded [OF example_os_Open_csv [of "[Row example_header, Row example_ada]"],
        of "Row example_header" "[Row example_ada]" "[]" "[example_card]"]
      C7_header_discarded [OF example_os_Open_csv [of "[]"]]
    by (simp add: example_os_Open_csv example_csv_records)
qed

text \<open>
  C2. The specification has a row of fewer than seven fields skipped with a warning, and
  \<open>readCardsFromCSV\<close> has a branch that does so. Under a header of seven fields the branch is
  never reached: the reader returns \<open>ErrFieldCount\<close> for the short row, \<open>readCardsFromCSV\<close>
  returns that error, the rows after it are not read, and \<open>main\<close> ends in \<open>log.Fatalf\<close>
  with no file written.
\<close>

theorem C2_short_row_is_fatal:
  "readCardsFromCSV
     (example_env [Row example_header, Row [''Alan Turing'', ''he/him''], Row example_ada])
     ''./cards.csv''
     = ([], Inl (Errorf_w ''failed to read CSV record'' csv_ErrFieldCount))
   \<and> fatal (main (example_env [Row example_header, Row [''Alan Turing'', ''he/him''], Row example_ada]))
   \<and> logged (main (example_env [Row example_header, Row [''Alan Turing'', ''he/him''], Row example_ada]))
       = [(''Error reading cards from CSV: %v'',
           [ArgError (Errorf_w ''failed to read CSV record'' csv_ErrFieldCount)])]
   \<and> stdout (main (example_env [Row example_header, Row [''Alan Turing'', ''he/him''], Row example_ada])) = []
   \<and> files (main (example_env [Row example_header, Row [''Alan Turing'', ''he/him''], Row example_ada]))
       = fs (example_env [Row example_header, Row [''Alan Turing'', ''he/him''], Row example_ada])"
proof -
  have r: "readCardsFromCSV
     (example_env [Row example_header, Row [''Alan Turing'', ''he/him''], Row example_ada])
     ''./cards.csv''
     = ([], Inl (Errorf_w ''failed to read CSV record'' csv_ErrFieldCount))"
    by (simp add: readCardsFromCSV_def csv_NewReader_def csv_Read_def readCardsLoop.simps Let_def
        example_os_Open_csv example_csv_records example_header_def)
  show ?thesis
    by (simp add: r main_def Let_def os_IsNotExist_def) (simp add: example_env_def example_resolve_def)
qed

text \<open>
  The branch that skips a short row is reached when the header itself is short: then every
  row of the header's length is skipped with the warning.
\<close>

lemma readCardsFromCSV_short_header:
  "readCardsFromCSV (example_env [Row [''name'', ''email''], Row [''Ada'', ''ada@example.org'']])
     ''./cards.csv''
     = ([(''Skipping invalid record: %v (expected 7 fields, got %d)'',
          [ArgRecord [''Ada'', ''ada@example.org''], ArgInt 2])],
        Inr [])"
  by (simp add: readCardsFromCSV_def csv_NewReader_def csv_Read_def readCardsLoop.simps Let_def
      example_os_Open_csv example_csv_records)

section \<open>Properties of the handlers\<close>

text \<open>
  \<open>http.Error\<close> on a writer that has sent nothing sends the code and the plain-text header;
  on a writer that has sent its status it changes neither, and appends its message.
\<close>

lemma http_Error_fresh:
  "Status w = None \<Longrightarrow>
     Status (http_Error w msg code) = Some code
     \<and> map_of (Sent (http_Error w msg code)) ''Content-Type'' = Some ''text/plain; charset=utf-8''
     \<and> Body (http_Error w msg code) = Body w @ msg @ [CHR 0x0A]"
  by (simp add: http_Error_def Header_Del_def Header_Set_def WriteHeader_def Write_def Let_def
      update_conv')

lemma http_Error_sent:
  "Status w = Some code' \<Longrightarrow>
     Status (http_Error w msg code) = Some code' \<and> Sent (http_Error w msg code) = Sent w
     \<and> Body (http_Error w msg code) = Body w @ msg @ [CHR 0x0A]"
  by (simp add: http_Error_def Header_Del_def Header_Set_def WriteHeader_def Write_def Let_def)

lemma cardHandler_s_not_POST:
  "Method r \<noteq> ''POST'' \<Longrightarrow> cardHandler_s env w r = (http_Error w ''Method not allowed'' 405, [])"
  by (simp add: cardHandler_s_def)

lemma cardHandler_footer_not_POST:
  "Method r \<noteq> ''POST'' \<Longrightarrow> cardHandler_footer env w r = (http_Error w ''Method not allowed'' 405, [])"
  by (simp add: cardHandler_footer_def)

lemma cardHandler_s_parse_failure:
  "Method r = ''POST'' \<Longrightarrow> payload r = Inl err \<Longrightarrow>
     cardHandler_s env w r = (http_Error w ''Failed to parse form data'' 400, [])"
  by (simp add: cardHandler_s_def ParseForm_def)

lemma cardHandler_footer_parse_failure:
  "Method r = ''POST'' \<Longrightarrow> payload r = Inl err \<Longrightarrow>
     cardHandler_footer env w r = (http_Error w ''Failed to parse form data'' 400, [])"
  by (simp add: cardHandler_footer_def ParseForm_def)

lemma cardHandler_s_generate_failure:
  "Method r = ''POST'' \<Longrightarrow> payload r = Inr vs \<Longrightarrow>
   GenerateCard_s env ''./assets/background_image.png'' ''./assets/Railway-Regular.ttf''
       ''./assets/Railway-Bold.ttf'' ''./assets/Railway-Italic.ttf''
       (cardOfForm_s (r\<lparr>Form := vs\<rparr>)) = Inl err \<Longrightarrow>
   cardHandler_s env w r =
     (http_Error w ''Failed to generate business card image'' 500,
      [(''Error generating image: %v'', [ArgError err])])"
  by (simp add: cardHandler_s_def ParseForm_def cardOfForm_s_def Let_def)

lemma cardHandler_footer_generate_failure:
  "Method r = ''POST'' \<Longrightarrow> payload r = Inr vs \<Longrightarrow>
   GenerateCard_footer env ''../BrandingGuidelines_2025.png'' ''../Raleway-Regular.ttf''
       ''../Raleway-Bold.ttf'' (cardOfForm (r\<lparr>Form := vs\<rparr>)) = Inl err \<Longrightarrow>
   cardHandler_footer env w r =
     (http_Error w ''Failed to generate business card image'' 500,
      [(''Error generating image: %v'', [ArgError err])])"
  by (simp add: cardHandler_footer_def ParseForm_def cardOfForm_def Let_def)

lemma cardHandler_s_POST:
  "Method r = ''POST'' \<Longrightarrow> payload r = Inr vs \<Longrightarrow>
   GenerateCard_s env ''./assets/background_image.png'' ''./assets/Railway-Regular.ttf''
       ''./assets/Railway-Bold.ttf'' ''./assets/Railway-Italic.ttf''
       (cardOfForm_s (r\<lparr>Form := vs\<rparr>)) = Inr img \<Longrightarrow>
   cardHandler_s env w r =
     (case png_Encode_w env
        (Header_Set (Header_Set w ''Content-Type'' ''image/png'') ''Content-Disposition''
           (''attachment; filename='' @ [CHR 0x22] @ ''emailsignature.png'' @ [CHR 0x22])) img of
        (w', Some err) \<Rightarrow> (http_Error w' ''Failed to encode PNG image'' 500,
                            [(''Error encoding image: %v'', [ArgError err])])
      | (w', None) \<Rightarrow> (w', []))"
  by (simp add: cardHandler_s_def ParseForm_def cardOfForm_s_def Let_def)

lemma cardHandler_footer_POST:
  "Method r = ''POST'' \<Longrightarrow> payload r = Inr vs \<Longrightarrow>
   GenerateCard_footer env ''../BrandingGuidelines_2025.png'' ''../Raleway-Regular.ttf''
       ''../Raleway-Bold.ttf'' (cardOfForm (r\<lparr>Form := vs\<rparr>)) = Inr img \<Longrightarrow>
   cardHandler_footer env w r =
     (case png_Encode_w env
        (Header_Set (Header_Set w ''Content-Type'' ''image/png'') ''Content-Disposition''
           (''attachment; filename='' @ [CHR 0x22] @ ''EmailSignature.png'' @ [CHR 0x22])) img of
        (w', Some err) \<Rightarrow> (http_Error w' ''Failed to encode PNG image'' 500,
                            [(''Error encoding image: %v'', [ArgError err])])
      | (w', None) \<Rightarrow> (w', []))"
  by (simp add: cardHandler_footer_def ParseForm_def cardOfForm_def Let_def)

lemma png_Encode_w_Encoded:
  "png_Encode env img = Encoded bytes \<Longrightarrow> Status w = None \<Longrightarrow>
     png_Encode_w env w img
       = (w\<lparr>Status := Some 200, Sent := Header w, Body := Body w @ bytes\<rparr>, None)"
  by (simp add: png_Encode_w_def Write_def WriteHeader_def Let_def)

text \<open>
  When \<open>png.Encode\<close> fails after it has written to the response, the status 200 has been
  sent, and the \<open>http.Error\<close> of the handler cannot replace it; the status is 500 only when
  the failure came before the first write.
\<close>

lemma encode_failure_after_write:
  "png_Encode env img = EncodeFailed (Some bytes) err \<Longrightarrow> Status w = None \<Longrightarrow>
     Status (http_Error (fst (png_Encode_w env w img)) msg 500) = Some 200"
  by (simp add: png_Encode_w_def Write_def WriteHeader_def Let_def http_Error_def Header_Del_def
      Header_Set_def)

lemma encode_failure_before_write:
  "png_Encode env img = EncodeFailed None err \<Longrightarrow> Status w = None \<Longrightarrow>
     Status (http_Error (fst (png_Encode_w env w img)) msg 500) = Some 500"
  by (simp add: png_Encode_w_def Write_def WriteHeader_def Let_def http_Error_def Header_Del_def
      Header_Set_def)

text \<open>The handlers on the example request, with working and with failing \<open>png.Encode\<close>.\<close>

lemma example_form:
  "cardOfForm_s (example_request\<lparr>Form :=
       [(''name'', [''Ada Lovelace'']), (''title'', [''Analyst'']),
        (''company'', [''Engines Ltd'']), (''address'', [''1 Main St'']),
        (''phone_number'', [''5551234567'']), (''email'', [''ada@example.org''])]\<rparr>)
     = \<lparr>Name_s = ''Ada Lovelace'', Pronouns_s = '''', Title_s = ''Analyst'',
        Company_s = ''Engines Ltd'', Department_s = '''', Address_s = ''1 Main St'',
        LandGrant1_s = '''', LandGrant2_s = '''', LandGrant3_s = '''', LandGrant4_s = '''',
        PhoneNumber_s = ''5551234567'', Email_s = ''ada@example.org''\<rparr>"
  "cardOfForm (example_request\<lparr>Form :=
       [(''name'', [''Ada Lovelace'']), (''title'', [''Analyst'']),
        (''company'', [''Engines Ltd'']), (''address'', [''1 Main St'']),
        (''phone_number'', [''5551234567'']), (''email'', [''ada@example.org''])]\<rparr>)
     = \<lparr>Name = ''Ada Lovelace'', Pronouns = '''', Title = ''Analyst'',
        Company = ''Engines Ltd'', Address = ''1 Main St'',
        PhoneNumber = ''5551234567'', Email = ''ada@example.org''\<rparr>"
  by (simp_all add: cardOfForm_s_def cardOfForm_def FormValue_def)

text \<open>
  A renderer reads the environment through the asset files and the decoders only.
\<close>

lemma GenerateCard_env:
  assumes "os_Open env' bg = os_Open env bg" and "os_Open env' reg = os_Open env reg"
    and "os_Open env' bold = os_Open env bold" and "image_Decode env' = image_Decode env"
    and "opentype_Parse env' = opentype_Parse env" and "opentype_NewFace env' = opentype_NewFace env"
  shows "GenerateCard env' bg reg bold c = GenerateCard env bg reg bold c"
  unfolding GenerateCard_def ioutil_ReadFile_def assms ..

lemma GenerateCard_footer_env:
  assumes "os_Open env' bg = os_Open env bg" and "os_Open env' reg = os_Open env reg"
    and "os_Open env' bold = os_Open env bold" and "image_Decode env' = image_Decode env"
    and "opentype_Parse env' = opentype_Parse env" and "opentype_NewFace env' = opentype_NewFace env"
  shows "GenerateCard_footer env' bg reg bold c = GenerateCard_footer env bg reg bold c"
  unfolding GenerateCard_footer_def ioutil_ReadFile_def assms ..

lemma GenerateCard_s_env:
  assumes "os_Open env' bg = os_Open env bg" and "os_Open env' reg = os_Open env reg"
    and "os_Open env' bold = os_Open env bold" and "os_Open env' ital = os_Open env ital"
    and "image_Decode env' = image_Decode env"
    and "opentype_Parse env' = opentype_Parse env" and "opentype_NewFace env' = opentype_NewFace env"
  shows "GenerateCard_s env' bg reg bold ital c = GenerateCard_s env bg reg bold ital c"
  unfolding GenerateCard_s_def ioutil_ReadFile_def assms ..

lemma example_broken_GenerateCard_s:
  "GenerateCard_s example_env_broken bg reg bold ital c = GenerateCard_s (example_env []) bg reg bold ital c"
  by (rule GenerateCard_s_env) (simp_all add: example_env_broken_def os_Open_def)

lemma example_broken_GenerateCard_footer:
  "GenerateCard_footer example_env_broken bg reg bold c = GenerateCard_footer (example_env []) bg reg bold c"
  by (rule GenerateCard_footer_env) (simp_all add: example_env_broken_def os_Open_def)

lemma example_png_s:
  "GenerateCard_s (example_env []) ''./assets/background_image.png''
       ''./assets/Railway-Regular.ttf'' ''./assets/Railway-Bold.ttf''
       ''./assets/Railway-Italic.ttf''
       \<lparr>Name_s = ''Ada Lovelace'', Pronouns_s = '''', Title_s = ''Analyst'',
        Company_s = ''Engines Ltd'', Department_s = '''', Address_s = ''1 Main St'',
        LandGrant1_s = '''', LandGrant2_s = '''', LandGrant3_s = '''', LandGrant4_s = '''',
        PhoneNumber_s = ''5551234567'', Email_s = ''ada@example.org''\<rparr> = Inr img \<Longrightarrow>
   example_png img = ''PNG|Ada Lovelace|Title: Analyst|Company: Engines Ltd|Address: 1 Main St|Phone: (555) 123-4567|Email: ada@example.org''"
  by (auto simp add: GenerateCard_s_def example_env_def example_resolve_def os_Open_def ioutil_ReadFile_def Let_def
      image_NewRGBA_def draw_Draw_def drawText_def example_png_def example_phones)


lemma example_png_footer:
  "GenerateCard_footer (example_env []) ''../BrandingGuidelines_2025.png''
       ''../Raleway-Regular.ttf'' ''../Raleway-Bold.ttf''
       \<lparr>Name = ''Ada Lovelace'', Pronouns = '''', Title = ''Analyst'',
        Company = ''Engines Ltd'', Address = ''1 Main St'',
        PhoneNumber = ''5551234567'', Email = ''ada@example.org''\<rparr> = Inr img \<Longrightarrow>
   example_png img = ''PNG|Ada Lovelace|Analyst|Engines Ltd|1 Main St|(555) 123-4567|ada@example.org''"
  by (auto simp add: GenerateCard_footer_def example_env_def example_resolve_def os_Open_def ioutil_ReadFile_def Let_def
      image_NewRGBA_def draw_Draw_def drawText_def example_png_def example_phones)

section \<open>Claims about the handlers\<close>

text \<open>
  C9. A request to \<open>/generate-card\<close> whose method is not \<open>POST\<close> is answered, by either
  handler, with \<open>http.Error(w, "Method not allowed", 405)\<close> and nothing else: on a response
  that has sent nothing the status is 405, nothing is logged, and the answer is the same
  whatever the form data of the request and whatever the environment (files, decoders),
  neither of which is read.
\<close>

theorem C9_method_not_allowed:
  assumes "Method r \<noteq> ''POST''"
  shows "cardHandler_s env w r = (http_Error w ''Method not allowed'' 405, [])
       \<and> cardHandler_footer env w r = (http_Error w ''Method not allowed'' 405, [])
       \<and> cardHandler_s env w r = cardHandler_s env' w (r\<lparr>payload := pl, Form := fm\<rparr>)
       \<and> cardHandler_footer env w r = cardHandler_footer env' w (r\<lparr>payload := pl, Form := fm\<rparr>)
       \<and> (Status w = None \<longrightarrow>
            Status (fst (cardHandler_s env w r)) = Some 405
            \<and> Status (fst (cardHandler_footer env w r)) = Some 405)"
  using assms
  by (simp add: cardHandler_s_not_POST cardHandler_footer_not_POST http_Error_fresh)

theorem C9_method_not_allowed_witness:
  "Method (example_request\<lparr>Method := ''GET''\<rparr>) \<noteq> ''POST''
   \<and> Status example_w = None
   \<and> Status (fst (cardHandler_s (example_env []) example_w (example_request\<lparr>Method := ''GET''\<rparr>)))
       = Some 405
   \<and> Body (fst (cardHandler_s (example_env []) example_w (example_request\<lparr>Method := ''GET''\<rparr>)))
       = ''Method not allowed'' @ [CHR 0x0A]
   \<and> Status (fst (cardHandler_footer (example_env []) example_w (example_request\<lparr>Method := ''GET''\<rparr>)))
       = Some 405"
proof -
  have m: "Method (example_request\<lparr>Method := ''GET''\<rparr>) \<noteq> ''POST''"
    by simp
  have w: "Status example_w = None" "Body example_w = ''''"
    by (simp_all add: example_w_def)
  show ?thesis
    using m w C9_method_not_allowed [OF m, of "example_env []" example_w]
    by (simp add: http_Error_fresh)
qed

text \<open>
  C6, as the specification states it, asks only that the form parses and that the card is
  generated. In the example below both hold and \<open>png.Encode\<close> fails on the connection after
  three bytes: the body is those bytes and the message of \<open>http.Error\<close>, not the PNG
  encoding of the card.
\<close>

theorem C6_encode_failure_counterexample:
  "Method example_request = ''POST''
   \<and> \<not> isl (payload example_request)
   \<and> \<not> isl (GenerateCard_s example_env_broken ''./assets/background_image.png''
         ''./assets/Railway-Regular.ttf'' ''./assets/Railway-Bold.ttf''
         ''./assets/Railway-Italic.ttf''
         (cardOfForm_s (example_request\<lparr>Form := projr (payload example_request)\<rparr>)))
   \<and> example_png (projr (GenerateCard_s example_env_broken ''./assets/background_image.png''
         ''./assets/Railway-Regular.ttf'' ''./assets/Railway-Bold.ttf''
         ''./assets/Railway-Italic.ttf''
         (cardOfForm_s (example_request\<lparr>Form := projr (payload example_request)\<rparr>))))
       = ''PNG|Ada Lovelace|Title: Analyst|Company: Engines Ltd|Address: 1 Main St|Phone: (555) 123-4567|Email: ada@example.org''
   \<and> Body (fst (cardHandler_s example_env_broken example_w example_request))
       = ''PNGFailed to encode PNG image'' @ [CHR 0x0A]"
proof -
  let ?form = "[(''name'', [''Ada Lovelace'']), (''title'', [''Analyst'']),
        (''company'', [''Engines Ltd'']), (''address'', [''1 Main St'']),
        (''phone_number'', [''5551234567'']), (''email'', [''ada@example.org''])]"
  have p: "payload example_request = Inr ?form" and m: "Method example_request = ''POST''"
    by (simp_all add: example_request_def)
  obtain img where img: "GenerateCard_s (example_env []) ''./assets/background_image.png''
       ''./assets/Railway-Regular.ttf'' ''./assets/Railway-Bold.ttf''
       ''./assets/Railway-Italic.ttf'' (cardOfForm_s (example_request\<lparr>Form := ?form\<rparr>)) = Inr img"
    using example_GenerateCard_s by blast
  have png: "example_png img = ''PNG|Ada Lovelace|Title: Analyst|Company: Engines Ltd|Address: 1 Main St|Phone: (555) 123-4567|Email: ada@example.org''"
    using img by (intro example_png_s) (simp add: example_form)
  have enc: "png_Encode example_env_broken img
      = EncodeFailed (Some (take 3 (example_png img))) (LibError ''write: broken pipe'')"
    by (simp add: example_env_broken_def)
  have "Body (fst (cardHandler_s example_env_broken example_w example_request))
       = ''PNGFailed to encode PNG image'' @ [CHR 0x0A]"
    using img
    by (simp add: cardHandler_s_POST [OF m p] example_broken_GenerateCard_s)
       (simp add: png_Encode_w_def enc png Write_def WriteHeader_def Header_Set_def
          http_Error_def Header_Del_def example_w_def)
  with img png m p show ?thesis
    by (simp add: example_broken_GenerateCard_s)
qed

text \<open>
  C6, amended with the condition that \<open>png.Encode\<close> succeeds. A \<open>POST\<close> request whose form
  parses, whose card is generated and whose image is encoded is answered, on a response
  writer that has sent and written nothing, with status 200, the header \<open>Content-Type\<close>
  \<open>image/png\<close>, the header \<open>Content-Disposition\<close> of an attachment, and the bytes of the
  encoding as the body.
\<close>

theorem C6_png_response:
  assumes "Method r = ''POST''" and "payload r = Inr vs" and "Status w = None" and "Body w = ''''"
    and "png_Encode env img = Encoded bytes"
  shows "(GenerateCard_s env ''./assets/background_image.png'' ''./assets/Railway-Regular.ttf''
            ''./assets/Railway-Bold.ttf'' ''./assets/Railway-Italic.ttf''
            (cardOfForm_s (r\<lparr>Form := vs\<rparr>)) = Inr img \<longrightarrow>
          Status (fst (cardHandler_s env w r)) = Some 200
          \<and> map_of (Sent (fst (cardHandler_s env w r))) ''Content-Type'' = Some ''image/png''
          \<and> map_of (Sent (fst (cardHandler_s env w r))) ''Content-Disposition''
              = Some (''attachment; filename='' @ [CHR 0x22] @ ''emailsignature.png'' @ [CHR 0x22])
          \<and> Body (fst (cardHandler_s env w r)) = bytes)
       \<and> (GenerateCard_footer env ''../BrandingGuidelines_2025.png'' ''../Raleway-Regular.ttf''
            ''../Raleway-Bold.ttf'' (cardOfForm (r\<lparr>Form := vs\<rparr>)) = Inr img \<longrightarrow>
          Status (fst (cardHandler_footer env w r)) = Some 200
          \<and> map_of (Sent (fst (cardHandler_footer env w r))) ''Content-Type'' = Some ''image/png''
          \<and> map_of (Sent (fst (cardHandler_footer env w r))) ''Content-Disposition''
              = Some (''attachment; filename='' @ [CHR 0x22] @ ''EmailSignature.png'' @ [CHR 0x22])
          \<and> Body (fst (cardHandler_footer env w r)) = bytes)"
  using assms
  by (simp add: cardHandler_s_POST cardHandler_footer_POST png_Encode_w_Encoded Header_Set_def
      update_conv')

theorem C6_png_response_witness:
  "Method example_request = ''POST'' \<and> Status example_w = None \<and> Body example_w = ''''
   \<and> Status (fst (cardHandler_footer (example_env []) example_w example_request)) = Some 200
   \<and> map_of (Sent (fst (cardHandler_footer (example_env []) example_w example_request)))
        ''Content-Type'' = Some ''image/png''
   \<and> Body (fst (cardHandler_footer (example_env []) example_w example_request))
       = ''PNG|Ada Lovelace|Analyst|Engines Ltd|1 Main St|(555) 123-4567|ada@example.org''"
proof -
  let ?form = "[(''name'', [''Ada Lovelace'']), (''title'', [''Analyst'']),
        (''company'', [''Engines Ltd'']), (''address'', [''1 Main St'']),
        (''phone_number'', [''5551234567'']), (''email'', [''ada@example.org''])]"
  have p: "payload example_request = Inr ?form" and m: "Method example_request = ''POST''"
    by (simp_all add: example_request_def)
  have w: "Status example_w = None" "Body example_w = ''''"
    by (simp_all add: example_w_def)
  obtain img where img: "GenerateCard_footer (example_env []) ''../BrandingGuidelines_2025.png''
       ''../Raleway-Regular.ttf'' ''../Raleway-Bold.ttf''
       (cardOfForm (example_request\<lparr>Form := ?form\<rparr>)) = Inr img"
    using example_GenerateCard_footer by blast
  have png: "example_png img = ''PNG|Ada Lovelace|Analyst|Engines Ltd|1 Main St|(555) 123-4567|ada@example.org''"
    using img by (intro example_png_footer) (simp add: example_form)
  have enc: "png_Encode (example_env []) img = Encoded (example_png img)"
    by (simp add: example_env_def example_resolve_def)
  show ?thesis
    using C6_png_response [OF m p w enc] img m w png
    by simp
qed

text \<open>
  C8. The handlers answer a failure of \<open>png.Encode\<close> with \<open>http.Error(w, ..., 500)\<close>, as the
  specification says. When the failure comes after \<open>png.Encode\<close> has written to the
  response (a connection that breaks), the status 200 and the header \<open>image/png\<close> are sent
  already, and the client does not get a 500: on the example request both handlers log
  the error and leave the status at 200.
\<close>

theorem C8_encode_failure_status:
  "Status (fst (cardHandler_s example_env_broken example_w example_request)) = Some 200
   \<and> map_of (Sent (fst (cardHandler_s example_env_broken example_w example_request)))
        ''Content-Type'' = Some ''image/png''
   \<and> snd (cardHandler_s example_env_broken example_w example_request)
       = [(''Error encoding image: %v'', [ArgError (LibError ''write: broken pipe'')])]
   \<and> Status (fst (cardHandler_footer example_env_broken example_w example_request)) = Some 200
   \<and> snd (cardHandler_footer example_env_broken example_w example_request)
       = [(''Error encoding image: %v'', [ArgError (LibError ''write: broken pipe'')])]"
proof -
  let ?form = "[(''name'', [''Ada Lovelace'']), (''title'', [''Analyst'']),
        (''company'', [''Engines Ltd'']), (''address'', [''1 Main St'']),
        (''phone_number'', [''5551234567'']), (''email'', [''ada@example.org''])]"
  have p: "payload example_request = Inr ?form" and m: "Method example_request = ''POST''"
    by (simp_all add: example_request_def)
  obtain img where img: "GenerateCard_s (example_env []) ''./assets/background_image.png''
       ''./assets/Railway-Regular.ttf'' ''./assets/Railway-Bold.ttf''
       ''./assets/Railway-Italic.ttf'' (cardOfForm_s (example_request\<lparr>Form := ?form\<rparr>)) = Inr img"
    using example_GenerateCard_s by blast
  obtain img' where img': "GenerateCard_footer (example_env []) ''../BrandingGuidelines_2025.png''
       ''../Raleway-Regular.ttf'' ''../Raleway-Bold.ttf''
       (cardOfForm (example_request\<lparr>Form := ?form\<rparr>)) = Inr img'"
    using example_GenerateCard_footer by blast
  have enc: "\<And>i. png_Encode example_env_broken i
      = EncodeFailed (Some (take 3 (example_png i))) (LibError ''write: broken pipe'')"
    by (simp add: example_env_broken_def)
  have s: "cardHandler_s example_env_broken example_w example_request
      = (http_Error (Write (Header_Set (Header_Set example_w ''Content-Type'' ''image/png'')
            ''Content-Disposition''
            (''attachment; filename='' @ [CHR 0x22] @ ''emailsignature.png'' @ [CHR 0x22]))
           (take 3 (example_png img))) ''Failed to encode PNG image'' 500,
         [(''Error encoding image: %v'', [ArgError (LibError ''write: broken pipe'')])])"
    using img by (simp add: cardHandler_s_POST [OF m p] example_broken_GenerateCard_s
        png_Encode_w_def enc)
  have f: "cardHandler_footer example_env_broken example_w example_request
      = (http_Error (Write (Header_Set (Header_Set example_w ''Content-Type'' ''image/png'')
            ''Content-Disposition''
            (''attachment; filename='' @ [CHR 0x22] @ ''EmailSignature.png'' @ [CHR 0x22]))
           (take 3 (example_png img'))) ''Failed to encode PNG image'' 500,
         [(''Error encoding image: %v'', [ArgError (LibError ''write: broken pipe'')])])"
    using img' by (simp add: cardHandler_footer_POST [OF m p] example_broken_GenerateCard_footer
        png_Encode_w_def enc)
  show ?thesis
    unfolding s f
    by (simp add: Write_def WriteHeader_def Header_Set_def http_Error_def Header_Del_def
        example_w_def update_conv')
qed

section \<open>Properties of the batch program\<close>

text \<open>Every failure that \<open>main\<close> meets ends the run in \<open>log.Fatalf\<close>.\<close>

lemma main_missing_asset_fatal:
  "os_IsNotExist env ''./BrandingGuidelines_2025.png'' \<or> os_IsNotExist env ''./Raleway-Regular.ttf''
     \<or> os_IsNotExist env ''./Raleway-Bold.ttf'' \<or> os_IsNotExist env ''./cards.csv'' \<Longrightarrow>
   fatal (main env) \<and> stdout (main env) = [] \<and> files (main env) = fs env"
  by (auto simp: main_def Let_def)

lemma main_csv_error_fatal:
  "\<not> os_IsNotExist env ''./BrandingGuidelines_2025.png'' \<Longrightarrow>
   \<not> os_IsNotExist env ''./Raleway-Regular.ttf'' \<Longrightarrow> \<not> os_IsNotExist env ''./Raleway-Bold.ttf'' \<Longrightarrow>
   \<not> os_IsNotExist env ''./cards.csv'' \<Longrightarrow>
   readCardsFromCSV env ''./cards.csv'' = (logs, Inl err) \<Longrightarrow>
   fatal (main env) \<and> stdout (main env) = [] \<and> files (main env) = fs env
   \<and> logged (main env) = logs @ [(''Error reading cards from CSV: %v'', [ArgError err])]"
  by (simp add: main_def Let_def)

lemma mainLoop_failure_fatal:
  "GenerateCard env bg reg bold c = Inl err \<Longrightarrow>
     fatal (mainLoop env bg reg bold (c # cards) out logs)
     \<and> files (mainLoop env bg reg bold (c # cards) out logs) = fs env
     \<and> logged (mainLoop env bg reg bold (c # cards) out logs)
         = logs @ [(''Error generating email signature for %s: %v'', [ArgString (Name c), ArgError err])]"
  by simp

lemma mainLoop_create_failure_fatal:
  "GenerateCard env bg reg bold c = Inr img \<Longrightarrow> \<not> creatable env (outputFileName c) \<Longrightarrow>
     fatal (mainLoop env bg reg bold (c # cards) out logs)
     \<and> files (mainLoop env bg reg bold (c # cards) out logs) = fs env
     \<and> stdout (mainLoop env bg reg bold (c # cards) out logs) = out"
  by simp

lemma mainLoop_encode_failure_fatal:
  "GenerateCard env bg reg bold c = Inr img \<Longrightarrow> creatable env (outputFileName c) \<Longrightarrow>
   png_Encode env img = EncodeFailed written err \<Longrightarrow>
     fatal (mainLoop env bg reg bold (c # cards) out logs)
     \<and> stdout (mainLoop env bg reg bold (c # cards) out logs) = out
     \<and> logged (mainLoop env bg reg bold (c # cards) out logs)
         = logs @ [(''Failed to encode image to PNG for %s: %v'', [ArgString (Name c), ArgError err])]"
  by simp

text \<open>
  Writing a file that is none of the assets leaves what \<open>GenerateCard\<close> reads, and so the
  bytes of every card, as they were.
\<close>

lemma os_Open_update:
  "resolve env path \<noteq> k \<Longrightarrow>
     os_Open (env\<lparr>fs := AList.update k v (fs env)\<rparr>) path = os_Open env path"
  by (simp add: os_Open_def update_conv')

lemma cardPNG_update:
  assumes "k \<notin> set (assetFiles env)"
  shows "cardPNG (env\<lparr>fs := AList.update k v (fs env)\<rparr>) c = cardPNG env c"
proof -
  have "GenerateCard (env\<lparr>fs := AList.update k v (fs env)\<rparr>)
          ''./BrandingGuidelines_2025.png'' ''./Raleway-Regular.ttf'' ''./Raleway-Bold.ttf'' c
      = GenerateCard env ''./BrandingGuidelines_2025.png'' ''./Raleway-Regular.ttf''
          ''./Raleway-Bold.ttf'' c"
    using assms by (intro GenerateCard_env) (auto simp: os_Open_update assetFiles_def)
  then show ?thesis
    by (simp add: cardPNG_def split: sum.splits)
qed

lemma writeCard_Some:
  "cardPNG env c = Some bytes \<Longrightarrow>
     writeCard env c al = AList.update (resolve env (outputFileName c)) (File bytes) al"
  by (simp add: writeCard_def)

text \<open>
  The loop when every card is rendered, created and encoded, and no output file is an
  asset: one update of the file system and one line printed for each card, in the order of
  the cards.
\<close>

lemma mainLoop_ok:
  "\<forall>c\<in>set cards. creatable env (outputFileName c) \<and> cardPNG env c \<noteq> None
       \<and> resolve env (outputFileName c) \<notin> set (assetFiles env) \<Longrightarrow>
   mainLoop env ''./BrandingGuidelines_2025.png'' ''./Raleway-Regular.ttf'' ''./Raleway-Bold.ttf''
       cards out logs
     = \<lparr>files = fold (writeCard env) cards (fs env), stdout = out @ map successLine cards,
        logged = logs, fatal = False\<rparr>"
proof (induction cards arbitrary: env out)
  case Nil
  show ?case by simp
next
  case (Cons c cards)
  from Cons.prems obtain img bytes where
    img: "GenerateCard env ''./BrandingGuidelines_2025.png'' ''./Raleway-Regular.ttf''
            ''./Raleway-Bold.ttf'' c = Inr img"
    and enc: "png_Encode env img = Encoded bytes"
    and cr: "creatable env (outputFileName c)"
    and na: "resolve env (outputFileName c) \<notin> set (assetFiles env)"
    by (auto simp: cardPNG_def split: sum.splits encode_outcome.splits)
  have png: "cardPNG env c = Some bytes"
    by (simp add: cardPNG_def img enc)
  let ?env = "env\<lparr>fs := AList.update (resolve env (outputFileName c)) (File bytes) (fs env)\<rparr>"
  have same: "\<And>c'. cardPNG ?env c' = cardPNG env c'"
    using na by (rule cardPNG_update)
  have wc: "writeCard ?env = writeCard env"
    by (intro ext) (simp add: writeCard_def same split: option.splits)
  have "\<forall>c'\<in>set cards. creatable ?env (outputFileName c') \<and> cardPNG ?env c' \<noteq> None
      \<and> resolve ?env (outputFileName c') \<notin> set (assetFiles ?env)"
    using Cons.prems by (simp add: same assetFiles_def)
  from Cons.IH [OF this, of "out @ [successLine c]"]
  have "mainLoop ?env ''./BrandingGuidelines_2025.png'' ''./Raleway-Regular.ttf''
          ''./Raleway-Bold.ttf'' cards (out @ [successLine c]) logs
      = \<lparr>files = fold (writeCard env) cards
                  (AList.update (resolve env (outputFileName c)) (File bytes) (fs env)),
         stdout = out @ successLine c # map successLine cards, logged = logs, fatal = False\<rparr>"
    by (simp add: wc)
  then show ?case
    by (simp add: img enc cr writeCard_Some [OF png] successLine_def)
qed

text \<open>Updates at pairwise distinct new files add one entry each.\<close>

lemma length_AList_update:
  "length (AList.update k v al) = (if k \<in> fst ` set al then length al else Suc (length al))"
  by (induction al) auto

lemma fold_writeCard_length:
  "\<forall>c\<in>set cards. cardPNG env c \<noteq> None \<Longrightarrow>
   distinct (map (\<lambda>c. resolve env (outputFileName c)) cards) \<Longrightarrow>
   \<forall>c\<in>set cards. map_of al (resolve env (outputFileName c)) = None \<Longrightarrow>
   length (fold (writeCard env) cards al) = length al + length cards"
proof (induction cards arbitrary: al)
  case Nil
  show ?case by simp
next
  case (Cons c cards)
  then obtain bytes where b: "cardPNG env c = Some bytes" by auto
  have other: "\<forall>d\<in>set cards. resolve env (outputFileName d) \<noteq> resolve env (outputFileName c)"
    using Cons.prems(2) by (auto simp: image_iff)
  have "length (fold (writeCard env) cards
          (AList.update (resolve env (outputFileName c)) (File bytes) al))
      = length (AList.update (resolve env (outputFileName c)) (File bytes) al) + length cards"
    using Cons.prems other by (intro Cons.IH) (auto simp: update_conv')
  moreover have "resolve env (outputFileName c) \<notin> fst ` set al"
    using Cons.prems(3) by (simp add: map_of_eq_None_iff)
  ultimately show ?case
    using b by (simp add: writeCard_Some length_AList_update)
qed

lemma fold_writeCard_other:
  "\<forall>c\<in>set cards. resolve env (outputFileName c) \<noteq> path \<Longrightarrow>
   map_of (fold (writeCard env) cards al) path = map_of al path"
  by (induction cards arbitrary: al) (auto simp: writeCard_def update_conv' split: option.splits)

lemma fold_writeCard_content:
  "c \<in> set cards \<Longrightarrow> distinct (map (\<lambda>c. resolve env (outputFileName c)) cards) \<Longrightarrow>
   cardPNG env c = Some bytes \<Longrightarrow>
   map_of (fold (writeCard env) cards al) (resolve env (outputFileName c)) = Some (File bytes)"
proof (induction cards arbitrary: al)
  case Nil
  then show ?case by simp
next
  case (Cons c' cards)
  show ?case
  proof (cases "c \<in> set cards")
    case True
    with Cons show ?thesis by simp
  next
    case False
    with Cons.prems have c: "c' = c"
      and other: "\<forall>d\<in>set cards. resolve env (outputFileName d) \<noteq> resolve env (outputFileName c)"
      by (auto simp: image_iff)
    show ?thesis
      using Cons.prems(3)
      by (simp add: c fold_writeCard_other [OF other] writeCard_Some update_conv')
  qed
qed

text \<open>
  \<open>main\<close> on a CSV file whose rows all have the fields of the header, seven or more, when
  the assets are there, every card is rendered, created and encoded, and no output file is
  an asset.
\<close>

lemma main_ok:
  assumes "\<not> os_IsNotExist env ''./BrandingGuidelines_2025.png''"
    and "\<not> os_IsNotExist env ''./Raleway-Regular.ttf''"
    and "\<not> os_IsNotExist env ''./Raleway-Bold.ttf''"
    and "os_Open env ''./cards.csv'' = Inr content"
    and "csv_records env content = Row header # map Row rows"
    and "\<forall>r\<in>set rows. length r = length header \<and> 7 \<le> length r"
    and "\<forall>r\<in>set rows. creatable env (outputFileName (cardOfRecord r))
           \<and> cardPNG env (cardOfRecord r) \<noteq> None
           \<and> resolve env (outputFileName (cardOfRecord r)) \<notin> set (assetFiles env)"
  shows "\<not> fatal (main env)"
    and "stdout (main env) = map successLine (map cardOfRecord rows)"
    and "files (main env) = fold (writeCard env) (map cardOfRecord rows) (fs env)"
proof -
  have csv: "\<not> os_IsNotExist env ''./cards.csv''"
    using assms(4) by (auto simp: os_IsNotExist_def os_Open_def split: option.splits)
  have rd: "readCardsFromCSV env ''./cards.csv'' = ([], Inr (map cardOfRecord rows))"
    using assms(4,5,6) by (rule readCardsFromCSV_wellformed)
  have loop: "mainLoop env ''./BrandingGuidelines_2025.png'' ''./Raleway-Regular.ttf''
        ''./Raleway-Bold.ttf'' (map cardOfRecord rows) [] []
      = \<lparr>files = fold (writeCard env) (map cardOfRecord rows) (fs env),
         stdout = [] @ map successLine (map cardOfRecord rows), logged = [], fatal = False\<rparr>"
    using assms(7) by (intro mainLoop_ok) simp
  have m: "main env = (if rows = []
      then \<lparr>files = fs env, stdout = [], logged = [(''No cards found in the CSV file.'', [])],
            fatal = False\<rparr>
      else mainLoop env ''./BrandingGuidelines_2025.png'' ''./Raleway-Regular.ttf''
        ''./Raleway-Bold.ttf'' (map cardOfRecord rows) [] [])"
    using assms(1,2,3) csv by (simp add: main_def Let_def rd)
  show "\<not> fatal (main env)"
    and "stdout (main env) = map successLine (map cardOfRecord rows)"
    and "files (main env) = fold (writeCard env) (map cardOfRecord rows) (fs env)"
    by (simp_all add: m loop)
qed

text \<open>The example environment on the example cards.\<close>

lemma example_cardPNG:
  "cardPNG (example_env rows) example_card
     = Some ''PNG|Ada Lovelace|she/her|Analyst|Engines Ltd|1 Main St|5551234567|ada@example.org''"
  "cardPNG (example_env rows) example_bob_card
     = Some ''PNG|Bob Stone|Mason|Engines Ltd|2 Main St|555-1234|bob@example.org''"
  "cardPNG (example_env rows) example_ada2_card
     = Some ''PNG|Ada Lovelace|they/them|Poet|Byron and Co|3 Side St|555-9999|ada@byron.example''"
  "cardPNG (example_env rows) example_ada3_card
     = Some ''PNG|./Ada Lovelace|they/them|Poet|Byron and Co|3 Side St|555-9999|ada@byron.example''"
  by (simp_all add: cardPNG_def GenerateCard_def example_env_def example_resolve_def os_Open_def
      ioutil_ReadFile_def Let_def image_NewRGBA_def draw_Draw_def drawText_def example_png_def
      example_card_def example_bob_card_def example_ada2_card_def example_ada3_card_def
      cardOfRecord_def example_ada_def example_bob_def example_ada2_def example_ada3_def)

lemma example_outputFileName:
  "outputFileName example_card = ''Ada_Lovelace_email_signature.png''"
  "outputFileName example_bob_card = ''Bob_Stone_email_signature.png''"
  "outputFileName example_ada2_card = ''Ada_Lovelace_email_signature.png''"
  "outputFileName example_ada3_card = ''./Ada_Lovelace_email_signature.png''"
  by (simp_all add: outputFileName_def sanitizedName_def strings_ReplaceAll_single
      example_card_def example_bob_card_def example_ada2_card_def example_ada3_card_def
      cardOfRecord_def example_ada_def example_bob_def example_ada2_def example_ada3_def)

lemma example_outputFile:
  "resolve (example_env rows) (outputFileName example_card) = ''Ada_Lovelace_email_signature.png''"
  "resolve (example_env rows) (outputFileName example_bob_card) = ''Bob_Stone_email_signature.png''"
  "resolve (example_env rows) (outputFileName example_ada2_card) = ''Ada_Lovelace_email_signature.png''"
  "resolve (example_env rows) (outputFileName example_ada3_card) = ''Ada_Lovelace_email_signature.png''"
  by (simp_all add: example_outputFileName example_env_def example_resolve_def)

lemma example_assetFiles:
  "assetFiles (example_env rows)
     = [''BrandingGuidelines_2025.png'', ''Raleway-Regular.ttf'', ''Raleway-Bold.ttf'']"
  by (simp add: assetFiles_def example_env_def example_resolve_def)

lemma example_assets:
  "\<not> os_IsNotExist (example_env rows) ''./BrandingGuidelines_2025.png''"
  "\<not> os_IsNotExist (example_env rows) ''./Raleway-Regular.ttf''"
  "\<not> os_IsNotExist (example_env rows) ''./Raleway-Bold.ttf''"
  "creatable (example_env rows) path"
  by (simp_all add: os_IsNotExist_def example_env_def example_resolve_def)

text \<open>
  Two rows whose file names differ as strings and name one file: the names
  \<open>Ada Lovelace\<close> and \<open>./Ada Lovelace\<close> give the paths \<open>Ada_Lovelace_email_signature.png\<close>
  and \<open>./Ada_Lovelace_email_signature.png\<close>, both rows are reported, and the run leaves one
  new file, the card of the second row.
\<close>

lemma main_two_paths_one_file:
  "stdout (main (example_env [Row example_header, Row example_ada, Row example_ada3]))
     = [''Successfully generated business card: Ada_Lovelace_email_signature.png'' @ [CHR 0x0A],
        ''Successfully generated business card: ./Ada_Lovelace_email_signature.png'' @ [CHR 0x0A]]
   \<and> files (main (example_env [Row example_header, Row example_ada, Row example_ada3]))
       = fs (example_env [Row example_header, Row example_ada, Row example_ada3])
         @ [(''Ada_Lovelace_email_signature.png'',
             File ''PNG|./Ada Lovelace|they/them|Poet|Byron and Co|3 Side St|555-9999|ada@byron.example'')]"
proof -
  let ?env = "example_env [Row example_header, Row example_ada, Row example_ada3]"
  have rows: "\<forall>r\<in>set [example_ada, example_ada3]. length r = length example_header \<and> 7 \<le> length r"
    by (simp add: example_ada_def example_ada3_def example_header_def)
  have ok: "\<forall>r\<in>set [example_ada, example_ada3]. creatable ?env (outputFileName (cardOfRecord r))
           \<and> cardPNG ?env (cardOfRecord r) \<noteq> None
           \<and> resolve ?env (outputFileName (cardOfRecord r)) \<notin> set (assetFiles ?env)"
    using example_cardPNG [of "[Row example_header, Row example_ada, Row example_ada3]"]
      example_outputFile [of "[Row example_header, Row example_ada, Row example_ada3]"]
    by (simp add: example_assets example_assetFiles example_card_def example_ada3_card_def)
  have csv: "csv_records ?env ''csv'' = Row example_header # map Row [example_ada, example_ada3]"
    by (simp add: example_csv_records)
  note m = main_ok [OF example_assets(1,2,3) example_os_Open_csv csv rows ok]
  have fs: "fold (writeCard ?env) [example_card, example_ada3_card] (fs ?env)
      = fs ?env @ [(''Ada_Lovelace_email_signature.png'',
             File ''PNG|./Ada Lovelace|they/them|Poet|Byron and Co|3 Side St|555-9999|ada@byron.example'')]"
    by (simp add: writeCard_Some [OF example_cardPNG(1)] writeCard_Some [OF example_cardPNG(4)]
        example_outputFile)
       (simp add: example_env_def example_resolve_def)
  show ?thesis
    using m fs
    by (simp add: example_card_def example_ada3_card_def successLine_def
        example_outputFileName [unfolded example_card_def example_ada3_card_def])
qed

section \<open>Claims about the batch program\<close>

text \<open>
  C3, as the specification states it, fails when two rows give the same file name: the CSV
  file below has two well-formed rows, both are read and both are reported as generated,
  and the run leaves one new file, which holds the card of the second row.
\<close>

theorem C3_same_name_counterexample:
  "readCardsFromCSV (example_env [Row example_header, Row example_ada, Row example_ada2]) ''./cards.csv''
     = ([], Inr [example_card, example_ada2_card])
   \<and> \<not> fatal (main (example_env [Row example_header, Row example_ada, Row example_ada2]))
   \<and> stdout (main (example_env [Row example_header, Row example_ada, Row example_ada2]))
       = [''Successfully generated business card: Ada_Lovelace_email_signature.png'' @ [CHR 0x0A],
          ''Successfully generated business card: Ada_Lovelace_email_signature.png'' @ [CHR 0x0A]]
   \<and> files (main (example_env [Row example_header, Row example_ada, Row example_ada2]))
       = fs (example_env [Row example_header, Row example_ada, Row example_ada2])
         @ [(''Ada_Lovelace_email_signature.png'',
             File ''PNG|Ada Lovelace|they/them|Poet|Byron and Co|3 Side St|555-9999|ada@byron.example'')]"
proof -
  let ?env = "example_env [Row example_header, Row example_ada, Row example_ada2]"
  have rows: "\<forall>r\<in>set [example_ada, example_ada2]. length r = length example_header \<and> 7 \<le> length r"
    by (simp add: example_ada_def example_ada2_def example_header_def)
  have ok: "\<forall>r\<in>set [example_ada, example_ada2]. creatable ?env (outputFileName (cardOfRecord r))
           \<and> cardPNG ?env (cardOfRecord r) \<noteq> None
           \<and> resolve ?env (outputFileName (cardOfRecord r)) \<notin> set (assetFiles ?env)"
    using example_cardPNG [of "[Row example_header, Row example_ada, Row example_ada2]"]
      example_outputFile [of "[Row example_header, Row example_ada, Row example_ada2]"]
    by (simp add: example_assets example_assetFiles example_card_def example_ada2_card_def)
  have csv: "csv_records ?env ''csv'' = Row example_header # map Row [example_ada, example_ada2]"
    by (simp add: example_csv_records)
  note m = main_ok [OF example_assets(1,2,3) example_os_Open_csv csv rows ok]
  have rd: "readCardsFromCSV ?env ''./cards.csv'' = ([], Inr (map cardOfRecord [example_ada, example_ada2]))"
    using example_os_Open_csv csv rows by (rule readCardsFromCSV_wellformed)
  have fs: "fold (writeCard ?env) [example_card, example_ada2_card] (fs ?env)
      = fs ?env @ [(''Ada_Lovelace_email_signature.png'',
             File ''PNG|Ada Lovelace|they/them|Poet|Byron and Co|3 Side St|555-9999|ada@byron.example'')]"
    by (simp add: writeCard_Some [OF example_cardPNG(1)] writeCard_Some [OF example_cardPNG(3)]
        example_outputFile)
       (simp add: example_env_def example_resolve_def)
  show ?thesis
    using m rd fs
    by (simp add: example_card_def example_ada2_card_def successLine_def
        example_outputFileName [unfolded example_card_def example_ada2_card_def])
qed

text \<open>
  C3, amended. On a CSV file whose \<open>N\<close> data rows all have the fields of the header row,
  seven or more, with the assets present, every card rendered, created and encoded, and no
  output path naming an asset file, the batch program ends without a fatal error, reports
  one file for each row in the order of the rows, and has written the file system by one
  write for each row, in that order, to the file that the path named after the row
  resolves to. When the output paths of the rows resolve to pairwise distinct files that
  did not exist, these are \<open>N\<close> more files, each holding the PNG encoding of the card of
  its row; paths that resolve to one file, equal as strings or not, overwrite one another.
\<close>

theorem C3_one_write_per_row:
  assumes "\<not> os_IsNotExist env ''./BrandingGuidelines_2025.png''"
    and "\<not> os_IsNotExist env ''./Raleway-Regular.ttf''"
    and "\<not> os_IsNotExist env ''./Raleway-Bold.ttf''"
    and "os_Open env ''./cards.csv'' = Inr content"
    and "csv_records env content = Row header # map Row rows"
    and "\<forall>r\<in>set rows. length r = length header \<and> 7 \<le> length r"
    and "\<forall>r\<in>set rows. creatable env (outputFileName (cardOfRecord r))
           \<and> cardPNG env (cardOfRecord r) \<noteq> None
           \<and> resolve env (outputFileName (cardOfRecord r)) \<notin> set (assetFiles env)"
  shows "\<not> fatal (main env)
       \<and> stdout (main env) = map successLine (map cardOfRecord rows)
       \<and> files (main env) = fold (writeCard env) (map cardOfRecord rows) (fs env)
       \<and> (distinct (map (\<lambda>r. resolve env (outputFileName (cardOfRecord r))) rows)
            \<and> (\<forall>r\<in>set rows. map_of (fs env) (resolve env (outputFileName (cardOfRecord r))) = None) \<longrightarrow>
          length (files (main env)) = length (fs env) + length rows
          \<and> (\<forall>r\<in>set rows. map_of (files (main env)) (resolve env (outputFileName (cardOfRecord r)))
                = map_option File (cardPNG env (cardOfRecord r))))"
proof -
  note m = main_ok [OF assms]
  have png: "\<forall>c\<in>set (map cardOfRecord rows). cardPNG env c \<noteq> None"
    using assms(7) by simp
  have "length (files (main env)) = length (fs env) + length rows
      \<and> (\<forall>r\<in>set rows. map_of (files (main env)) (resolve env (outputFileName (cardOfRecord r)))
                = map_option File (cardPNG env (cardOfRecord r)))"
    if d: "distinct (map (\<lambda>r. resolve env (outputFileName (cardOfRecord r))) rows)"
      and new: "\<forall>r\<in>set rows. map_of (fs env) (resolve env (outputFileName (cardOfRecord r))) = None"
  proof
    have d': "distinct (map (\<lambda>c. resolve env (outputFileName c)) (map cardOfRecord rows))"
      using d by (simp add: comp_def)
    have "length (fold (writeCard env) (map cardOfRecord rows) (fs env))
        = length (fs env) + length (map cardOfRecord rows)"
      using png d' new by (intro fold_writeCard_length) simp_all
    then show "length (files (main env)) = length (fs env) + length rows"
      by (simp add: m)
    show "\<forall>r\<in>set rows. map_of (files (main env)) (resolve env (outputFileName (cardOfRecord r)))
                = map_option File (cardPNG env (cardOfRecord r))"
    proof
      fix r assume r: "r \<in> set rows"
      with assms(7) obtain bytes where b: "cardPNG env (cardOfRecord r) = Some bytes"
        by auto
      have "map_of (fold (writeCard env) (map cardOfRecord rows) (fs env))
            (resolve env (outputFileName (cardOfRecord r))) = Some (File bytes)"
        using r d' b by (intro fold_writeCard_content) simp_all
      then show "map_of (files (main env)) (resolve env (outputFileName (cardOfRecord r)))
                = map_option File (cardPNG env (cardOfRecord r))"
        by (simp add: m b)
    qed
  qed
  with m show ?thesis by simp
qed

theorem C3_one_write_per_row_witness:
  "readCardsFromCSV (example_env [Row example_header, Row example_ada, Row example_bob]) ''./cards.csv''
     = ([], Inr [example_card, example_bob_card])
   \<and> \<not> fatal (main (example_env [Row example_header, Row example_ada, Row example_bob]))
   \<and> stdout (main (example_env [Row example_header, Row example_ada, Row example_bob]))
       = [''Successfully generated business card: Ada_Lovelace_email_signature.png'' @ [CHR 0x0A],
          ''Successfully generated business card: Bob_Stone_email_signature.png'' @ [CHR 0x0A]]
   \<and> length (files (main (example_env [Row example_header, Row example_ada, Row example_bob])))
       = length (fs (example_env [Row example_header, Row example_ada, Row example_bob])) + 2
   \<and> map_of (files (main (example_env [Row example_header, Row example_ada, Row example_bob])))
        ''Bob_Stone_email_signature.png''
       = Some (File ''PNG|Bob Stone|Mason|Engines Ltd|2 Main St|555-1234|bob@example.org'')"
proof -
  let ?env = "example_env [Row example_header, Row example_ada, Row example_bob]"
  have rows: "\<forall>r\<in>set [example_ada, example_bob]. length r = length example_header \<and> 7 \<le> length r"
    by (simp add: example_ada_def example_bob_def example_header_def)
  have files: "resolve ?env (outputFileName (cardOfRecord example_ada)) = ''Ada_Lovelace_email_signature.png''"
    "resolve ?env (outputFileName (cardOfRecord example_bob)) = ''Bob_Stone_email_signature.png''"
    using example_outputFile [of "[Row example_header, Row example_ada, Row example_bob]"]
    by (simp_all add: example_card_def example_bob_card_def)
  have ok: "\<forall>r\<in>set [example_ada, example_bob]. creatable ?env (outputFileName (cardOfRecord r))
           \<and> cardPNG ?env (cardOfRecord r) \<noteq> None
           \<and> resolve ?env (outputFileName (cardOfRecord r)) \<notin> set (assetFiles ?env)"
    using example_cardPNG [of "[Row example_header, Row example_ada, Row example_bob]"]
    by (simp add: example_assets example_assetFiles files example_card_def example_bob_card_def)
  have csv: "csv_records ?env ''csv'' = Row example_header # map Row [example_ada, example_bob]"
    by (simp add: example_csv_records)
  have rd: "readCardsFromCSV ?env ''./cards.csv'' = ([], Inr (map cardOfRecord [example_ada, example_bob]))"
    using example_os_Open_csv csv rows by (rule readCardsFromCSV_wellformed)
  have names: "outputFileName (cardOfRecord example_ada) = ''Ada_Lovelace_email_signature.png''"
    "outputFileName (cardOfRecord example_bob) = ''Bob_Stone_email_signature.png''"
    using example_outputFileName by (simp_all add: example_card_def example_bob_card_def)
  have d: "distinct (map (\<lambda>r. resolve ?env (outputFileName (cardOfRecord r))) [example_ada, example_bob])
      \<and> (\<forall>r\<in>set [example_ada, example_bob].
            map_of (fs ?env) (resolve ?env (outputFileName (cardOfRecord r))) = None)"
    by (simp add: files) (simp add: example_env_def example_resolve_def)
  note c3 = C3_one_write_per_row [OF example_assets(1,2,3) example_os_Open_csv csv rows ok]
  note c3d = c3 [THEN conjunct2, THEN conjunct2, THEN conjunct2, THEN mp, OF d]
  have "\<not> fatal (main ?env)"
    by (rule c3 [THEN conjunct1])
  moreover have "stdout (main ?env) = map successLine (map cardOfRecord [example_ada, example_bob])"
    by (rule c3 [THEN conjunct2, THEN conjunct1])
  moreover have "length (files (main ?env)) = length (fs ?env) + length [example_ada, example_bob]"
    by (rule c3d [THEN conjunct1])
  moreover have "map_of (files (main ?env)) (resolve ?env (outputFileName (cardOfRecord example_bob)))
          = map_option File (cardPNG ?env (cardOfRecord example_bob))"
    by (rule c3d [THEN conjunct2, THEN bspec]) simp
  ultimately show ?thesis
    using rd
      example_cardPNG(2) [of "[Row example_header, Row example_ada, Row example_bob]"]
    by (simp add: names files [unfolded names] successLine_def example_card_def
        example_bob_card_def)
qed

end
